theory Spec2Isabelle
  imports Main
begin

section \<open>JavaScript values\<close>

text \<open>
  The handlers of \<open>callFlowHandler.js\<close> receive message bodies, event details and
  network replies as untyped JavaScript values. They are modelled by a datatype of JSON-like
  values. An object is the list of its own properties; a property is looked up by its first
  entry.
\<close>

datatype jsval =
    JUndefined
  | JNull
  | JBool bool
  | JNum int
  | JStr string
  | JArr "jsval list"
  | JObj "(string \<times> jsval) list"

text \<open>JavaScript truthiness, as tested by \<open>!x\<close>, \<open>x ? a : b\<close>, \<open>x || y\<close> and \<open>x && y\<close>.\<close>

fun truthy :: "jsval \<Rightarrow> bool" where
  "truthy JUndefined = False"
| "truthy JNull = False"
| "truthy (JBool b) = b"
| "truthy (JNum n) = (n \<noteq> 0)"
| "truthy (JStr s) = (s \<noteq> [])"
| "truthy (JArr xs) = True"
| "truthy (JObj kvs) = True"

text \<open>
  Property access \<open>x.k\<close> on a value that is neither \<open>null\<close> nor \<open>undefined\<close>: an absent
  property reads as \<open>undefined\<close>. The handlers read message and response fields only
  (\<open>callerId\<close>, \<open>MediaPlacement\<close>, ...), none of which a string, a number, a boolean or
  an array has of its own, so on those values the access yields \<open>undefined\<close>. On \<open>null\<close>
  and \<open>undefined\<close> JavaScript raises a TypeError; every function below that can meet such
  a value tests \<open>nullish\<close> first and takes the raising branch.
\<close>

fun field :: "jsval \<Rightarrow> string \<Rightarrow> jsval" where
  "field (JObj kvs) k = (case map_of kvs k of Some v \<Rightarrow> v | None \<Rightarrow> JUndefined)"
| "field v k = JUndefined"

fun nullish :: "jsval \<Rightarrow> bool" where
  "nullish JUndefined = True"
| "nullish JNull = True"
| "nullish v = False"

text \<open>\<open>a || b\<close>\<close>

definition js_or :: "jsval \<Rightarrow> jsval \<Rightarrow> jsval" where
  "js_or a b = (if truthy a then a else b)"

text \<open>The recurring test \<open>v === undefined || v === ""\<close>.\<close>

definition missing :: "jsval \<Rightarrow> bool" where
  "missing v \<longleftrightarrow> v = JUndefined \<or> v = JStr []"

section \<open>Constants of CallHandler\<close>

definition TYPE_INSTANT :: string where
  "TYPE_INSTANT = ''INSTANT_ONE_ON_ONE''"

definition TYPE_SCHEDULED :: string where
  "TYPE_SCHEDULED = ''SCHEDULED_ONE_ON_ONE''"

definition CALL_INITIATE :: string where "CALL_INITIATE = ''call:initiate''"
definition CALL_RINGING :: string where "CALL_RINGING = ''call:ringing''"
definition CALL_ACCEPTED :: string where "CALL_ACCEPTED = ''call:accepted''"
definition CALL_DECLINED :: string where "CALL_DECLINED = ''call:declined''"
definition CALL_TIMEOUT :: string where "CALL_TIMEOUT = ''call:timeout''"
definition CALL_CANCELLED :: string where "CALL_CANCELLED = ''call:cancelled''"
definition CALL_ENDED :: string where "CALL_ENDED = ''call:ended''"
definition SELF_STOP_RING :: string where "SELF_STOP_RING = ''call:self:stopRinging''"
definition MEETING_READY :: string where "MEETING_READY = ''meeting:ready''"
definition MEETING_CONNECT :: string where "MEETING_CONNECT = ''meeting:connect''"
definition MEETING_PROBLEM :: string where "MEETING_PROBLEM = ''meeting:problem''"
definition MEETING_STATUS :: string where "MEETING_STATUS = ''meeting:status''"

section \<open>The state of CallHandler and its outbound effects\<close>

text \<open>
  Everything a handler does to the outside is recorded, in order, in a trace:
  \<^item> \<open>SocketSend flag payload\<close>: a call of \<open>SocketHandler.sendSocketMessage\<close>;
  \<^item> \<open>UIDispatch state substate payload\<close>: a call of \<open>CallHandler.dipatchUI\<close>;
  \<^item> \<open>DocEvent name detail\<close>: \<open>document.dispatchEvent(new CustomEvent(name, {detail}))\<close>;
  \<^item> \<open>ApiCall action body\<close>: a \<open>fetch\<close> to one of the two Lambda endpoints, with the
    object that the handler passes to \<open>JSON.stringify\<close> (which leaves a key out of the
    text it sends when the value is \<open>undefined\<close>);
  \<^item> \<open>CamMicEmit name\<close>: \<open>CamMicPermissionsUtility.emit(name)\<close>.
  \<open>console.log\<close> and \<open>DebugLogger.addLog\<close> only log and are left out, as are the
  \<open>alert()\<close> that opens \<open>dipatchUI\<close> and the three alert flags of
  \<open>chimeHandler\<close>, which belong to the media-engine wrapper.
\<close>

datatype effect =
    SocketSend string jsval
  | UIDispatch string string jsval
  | DocEvent string jsval
  | ApiCall string jsval
  | CamMicEmit string

text \<open>
  The two closures handed to \<open>setTimeout\<close>. The caller-side closure captures the caller
  and callee ids; the callee-side closure of \<open>handleSocketIncomingCall\<close> captures nothing.
\<close>

datatype timer_callback =
    CallerRingTimeout jsval jsval
  | CalleeRingTimeout

record call_invite =
  callerId :: jsval
  calleeId :: jsval
  callerRole :: jsval
  callType :: jsval
  callerData :: jsval
  calleeData :: jsval

text \<open>The object stored in \<open>_pendingCalleeJoin\<close>.\<close>

record pending_join =
  pj_meetingId :: jsval
  pj_calleeId :: jsval
  pj_calleeRole :: jsval
  pj_chimeId :: jsval
  pj_callType :: jsval
  pj_fullMeeting :: jsval

text \<open>
  The form controls of \<open>CallHandler._els\<close> that the accept path reads: \<open>None\<close> is an
  element that \<open>getElementById\<close> did not find, \<open>Some v\<close> an element whose \<open>.value\<close> is
  \<open>v\<close>.
\<close>

record els =
  el_callType :: "jsval option"
  el_role :: "jsval option"
  el_currentUserId :: "jsval option"
  el_targetUserId :: "jsval option"

text \<open>
  The static fields of the class (the leading underscore of the source's names is dropped),
  the browser's table of pending timeouts with the next free handle, and the trace.
\<close>

record call_state =
  invite :: call_invite
  calleeRingTimerId :: "nat option"
  callerRingTimerId :: "nat option"
  inCallOrConnecting :: bool
  pendingCalleeJoin :: "pending_join option"
  currentSide :: "string option"
  elements :: els
  timers :: "(nat \<times> timer_callback) list"
  nextTimerId :: nat
  trace :: "effect list"

definition emit :: "effect \<Rightarrow> call_state \<Rightarrow> call_state" where
  "emit e s = s\<lparr>trace := trace s @ [e]\<rparr>"

definition sendSocketMessage :: "string \<Rightarrow> jsval \<Rightarrow> call_state \<Rightarrow> call_state" where
  "sendSocketMessage flag payload s = emit (SocketSend flag payload) s"

definition dipatchUI :: "string \<Rightarrow> string \<Rightarrow> jsval \<Rightarrow> call_state \<Rightarrow> call_state" where
  "dipatchUI st sub payload s = emit (UIDispatch st sub payload) s"

definition dispatchEvent :: "string \<Rightarrow> jsval \<Rightarrow> call_state \<Rightarrow> call_state" where
  "dispatchEvent name detail s = emit (DocEvent name detail) s"

section \<open>Ring timers\<close>

text \<open>\<open>setTimeout\<close> registers the callback under a fresh handle and returns the handle.\<close>

definition setTimeout :: "timer_callback \<Rightarrow> call_state \<Rightarrow> nat \<times> call_state" where
  "setTimeout cb s =
     (nextTimerId s,
      s\<lparr>timers := timers s @ [(nextTimerId s, cb)], nextTimerId := Suc (nextTimerId s)\<rparr>)"

definition clearTimeout :: "nat \<Rightarrow> call_state \<Rightarrow> call_state" where
  "clearTimeout h s = s\<lparr>timers := filter (\<lambda>p. fst p \<noteq> h) (timers s)\<rparr>"

definition clearCalleeRingTimer :: "call_state \<Rightarrow> call_state" where
  "clearCalleeRingTimer s =
     (case calleeRingTimerId s of
        Some h \<Rightarrow> (clearTimeout h s)\<lparr>calleeRingTimerId := None\<rparr>
      | None \<Rightarrow> s)"

definition clearCallerRingTimer :: "call_state \<Rightarrow> call_state" where
  "clearCallerRingTimer s =
     (case callerRingTimerId s of
        Some h \<Rightarrow> (clearTimeout h s)\<lparr>callerRingTimerId := None\<rparr>
      | None \<Rightarrow> s)"

text \<open>
  The body of each timeout closure. The caller-side closure (the same in
  \<open>handleStartInstantCallClick\<close>, \<open>_initiateCall\<close> and \<open>handleAppStartCall\<close>) sends
  Timeout to the callee and SelfStopRing to the caller's own user id and notifies the UI.
  The callee-side closure of \<open>handleSocketIncomingCall\<close> has an empty body.
\<close>

fun runTimerCallback :: "timer_callback \<Rightarrow> call_state \<Rightarrow> call_state" where
  "runTimerCallback (CallerRingTimeout callerIdV calleeIdV) s =
     (let s1 = sendSocketMessage CALL_TIMEOUT
                 (JObj [(''to'', calleeIdV), (''callerId'', callerIdV), (''calleeId'', calleeIdV)]) s;
          s2 = sendSocketMessage SELF_STOP_RING
                 (JObj [(''to'', callerIdV), (''calleeId'', callerIdV)]) s1
      in dipatchUI ''caller:terminated'' ''timeout''
           (JObj [(''callerId'', callerIdV), (''calleeId'', calleeIdV)]) s2)"
| "runTimerCallback CalleeRingTimeout s = s"

text \<open>
  The browser firing the timeout with handle \<open>h\<close>: a pending timeout leaves the table and
  its callback runs; a handle that is not pending (cleared, or fired before) does nothing.
\<close>

definition fireTimer :: "nat \<Rightarrow> call_state \<Rightarrow> call_state" where
  "fireTimer h s =
     (case map_of (timers s) h of
        None \<Rightarrow> s
      | Some cb \<Rightarrow> runTimerCallback cb (s\<lparr>timers := filter (\<lambda>p. fst p \<noteq> h) (timers s)\<rparr>))"

section \<open>Socket handlers\<close>

definition handleSocketIncomingCall :: "jsval \<Rightarrow> call_state \<Rightarrow> call_state" where
  "handleSocketIncomingCall body s =
     (if \<not> truthy body then s
      else if field body ''callType'' \<noteq> JStr TYPE_INSTANT then s
      else if missing (field body ''callerId'') then s
      else if missing (field body ''calleeId'') then s
      else if missing (field body ''role'') then s
      else if inCallOrConnecting s then
        (let s1 = sendSocketMessage CALL_DECLINED
                    (JObj [(''to'', field body ''callerId''),
                           (''callerId'', field body ''callerId''),
                           (''calleeId'', field body ''calleeId''),
                           (''reason'', JStr ''in_another_call'')]) s
         in dipatchUI ''callee:terminated'' ''auto-declined''
              (JObj [(''callerId'', field body ''callerId''),
                     (''calleeId'', field body ''calleeId''),
                     (''reason'', JStr ''in_another_call'')]) s1)
      else
        (let s1 = s\<lparr>invite := \<lparr>callerId = field body ''callerId'',
                                calleeId = field body ''calleeId'',
                                callerRole = field body ''role'',
                                callType = js_or (field body ''mediaType'') (JStr ''video''),
                                callerData = js_or (field body ''callerData'') JNull,
                                calleeData = js_or (field body ''calleeData'') JNull\<rparr>,
                      currentSide := Some ''callee''\<rparr>;
             s2 = dispatchEvent CALL_RINGING
                    (JObj [(''callerId'', field body ''callerId''),
                           (''calleeId'', field body ''calleeId''),
                           (''callerData'', field body ''callerData''),
                           (''calleeData'', field body ''calleeData'')]) s1;
             mediaType = js_or (field body ''mediaType'') (JStr ''video'');
             incomingState = (if mediaType = JStr ''audio'' then ''callee:incomingAudioCall''
                              else ''callee:incomingVideoCall'');
             s3 = dipatchUI incomingState ''none''
                    (JObj [(''callerId'', field body ''callerId''),
                           (''calleeId'', field body ''calleeId''),
                           (''callerRole'', field body ''role''),
                           (''callerData'', field body ''callerData''),
                           (''calleeData'', field body ''calleeData'')]) s2;
             s4 = clearCalleeRingTimer s3;
             (h, s5) = setTimeout CalleeRingTimeout s4
         in s5\<lparr>calleeRingTimerId := Some h\<rparr>))"

definition handleSocketAccepted :: "jsval \<Rightarrow> call_state \<Rightarrow> call_state" where
  "handleSocketAccepted body s =
     (if \<not> truthy body then s
      else if missing (field body ''callerId'') then s
      else if missing (field body ''calleeId'') then s
      else
        (let s1 = clearCallerRingTimer s;
             s2 = s1\<lparr>currentSide := Some ''caller''\<rparr>;
             s3 = dipatchUI ''caller:callAccepted'' ''none''
                    (JObj [(''callerId'', field body ''callerId''),
                           (''calleeId'', field body ''calleeId''),
                           (''side'', JStr ''caller'')]) s2
         in s3\<lparr>inCallOrConnecting := True\<rparr>))"

definition handleSocketDeclined :: "jsval \<Rightarrow> call_state \<Rightarrow> call_state" where
  "handleSocketDeclined body s =
     (if \<not> truthy body then s
      else if missing (field body ''callerId'') then s
      else if missing (field body ''calleeId'') then s
      else if missing (field body ''reason'') then s
      else
        (let s1 = clearCallerRingTimer s;
             s2 = dispatchEvent CALL_ENDED
                    (JObj [(''reason'', JStr ''declined''),
                           (''callerId'', field body ''callerId''),
                           (''calleeId'', field body ''calleeId'')]) s1
         in dipatchUI ''caller:declined'' ''none''
              (JObj [(''callerId'', field body ''callerId''),
                     (''calleeId'', field body ''calleeId''),
                     (''reason'', field body ''reason'')]) s2))"

text \<open>\<open>body ? body.k : undefined\<close>\<close>

definition field_or_undefined :: "jsval \<Rightarrow> string \<Rightarrow> jsval" where
  "field_or_undefined body k = (if truthy body then field body k else JUndefined)"

definition handleSocketTimeout :: "jsval \<Rightarrow> call_state \<Rightarrow> call_state" where
  "handleSocketTimeout body s =
     (let s1 = clearCallerRingTimer s;
          s2 = clearCalleeRingTimer s1;
          s3 = s2\<lparr>inCallOrConnecting := False\<rparr>;
          s4 = dispatchEvent CALL_ENDED
                 (JObj [(''reason'', JStr ''timeout''),
                        (''callerId'', field_or_undefined body ''callerId''),
                        (''calleeId'', field_or_undefined body ''calleeId'')]) s3
      in dipatchUI ''caller:terminated'' ''timeout''
           (JObj [(''callerId'', field_or_undefined body ''callerId''),
                  (''calleeId'', field_or_undefined body ''calleeId'')]) s4)"

definition handleSocketCancelled :: "jsval \<Rightarrow> call_state \<Rightarrow> call_state" where
  "handleSocketCancelled body s =
     (let s1 = clearCallerRingTimer s;
          s2 = clearCalleeRingTimer s1;
          s3 = dispatchEvent CALL_ENDED
                 (JObj [(''reason'', JStr ''hangup''),
                        (''callerId'', field_or_undefined body ''callerId''),
                        (''calleeId'', field_or_undefined body ''calleeId'')]) s2
      in dipatchUI ''callee:terminated'' ''cancelled''
           (JObj [(''callerId'', field_or_undefined body ''callerId''),
                  (''calleeId'', field_or_undefined body ''calleeId'')]) s3)"

definition handleSocketSelfStopRinging :: "jsval \<Rightarrow> call_state \<Rightarrow> call_state" where
  "handleSocketSelfStopRinging body s = clearCalleeRingTimer (clearCallerRingTimer s)"

text \<open>\<open>body && body.message ? body.message : dflt\<close>\<close>

definition message_or :: "jsval \<Rightarrow> string \<Rightarrow> jsval" where
  "message_or body dflt =
     (if truthy body \<and> truthy (field body ''message'') then field body ''message'' else JStr dflt)"

definition handleSocketMeetingProblem :: "jsval \<Rightarrow> call_state \<Rightarrow> call_state" where
  "handleSocketMeetingProblem body s =
     dipatchUI ''caller:terminated'' ''error''
       (JObj [(''message'', message_or body ''meeting problem'')])
       (s\<lparr>inCallOrConnecting := False\<rparr>)"

text \<open>
  The caller's handler of MeetingReady is given after the meeting operations it calls.
\<close>

section \<open>Meeting operations\<close>

text \<open>
  The three remote calls read and write no static field of the class. Each is modelled
  by its result together with the effects it causes, which the calling handler appends to
  the trace with \<open>emits\<close>.
\<close>

definition emits :: "effect list \<Rightarrow> call_state \<Rightarrow> call_state" where
  "emits es s = s\<lparr>trace := trace s @ es\<rparr>"

text \<open>
  A thrown JavaScript error is modelled by its \<open>message\<close>; for the TypeError of
  reading a property of \<open>null\<close> or \<open>undefined\<close>, whose message is worded by the
  engine, the text \<open>TypeError\<close> stands in. What a \<open>fetch\<close> came back
  with is an input of the model: either the promise rejected, or there is a response with
  its \<open>ok\<close> flag, the text \<open>status statusText\<close>, the body text, and what
  \<open>response.json()\<close> settles to (\<open>Inl\<close> the message of its rejection).
\<close>

type_synonym js_error = string

datatype http_reply =
    NetworkError js_error
  | Reply bool string string "js_error + jsval"

text \<open>
  String conversion in a template literal, \<open>`${v}`\<close>: strings as they are, \<open>undefined\<close>,
  \<open>null\<close> and booleans by name, an object as \<open>[object Object]\<close>, an array as its
  elements joined by commas (\<open>null\<close> and \<open>undefined\<close> elements as the empty string).
  Numbers are modelled by integers and printed in decimal, which is how JavaScript
  prints an integer below \<open>10^21\<close> in absolute value; from there on JavaScript writes an
  exponent, which the model does not follow. No number of that size occurs in a message
  or a response below.
\<close>

definition digit_char :: "nat \<Rightarrow> char" where
  "digit_char d = ''0123456789'' ! d"

fun decimal :: "nat \<Rightarrow> string" where
  "decimal n = (if 10 \<le> n then decimal (n div 10) @ [digit_char (n mod 10)] else [digit_char n])"

definition number_to_str :: "int \<Rightarrow> string" where
  "number_to_str i = (if 0 \<le> i then decimal (nat i) else CHR ''-'' # decimal (nat (- i)))"

fun join_commas :: "string list \<Rightarrow> string" where
  "join_commas [] = []"
| "join_commas [x] = x"
| "join_commas (x # y # ys) = x @ '','' @ join_commas (y # ys)"

fun to_str :: "jsval \<Rightarrow> string" where
  "to_str JUndefined = ''undefined''"
| "to_str JNull = ''null''"
| "to_str (JBool b) = (if b then ''true'' else ''false'')"
| "to_str (JNum n) = number_to_str n"
| "to_str (JStr s) = s"
| "to_str (JArr xs) = join_commas (map (\<lambda>x. if nullish x then [] else to_str x) xs)"
| "to_str (JObj kvs) = ''[object Object]''"

text \<open>
  The platform functions the handlers call: \<open>decode x\<close> is \<open>JSON.parse(atob(x))\<close>, with
  \<open>None\<close> when either raises, and \<open>encodeURIComponent\<close> is the function of that name. The
  operator's flag \<open>CALLEE_MANUAL_JOIN_ENABLED\<close> and the replies of the three remote calls
  are inputs as well, and so is what the permission utility does (see \<open>ensureCamMicReady\<close>).
\<close>

datatype permission_outcome = AlreadyGranted | GrantedLater | NeverGranted

record environment =
  CALLEE_MANUAL_JOIN_ENABLED :: bool
  decode :: "jsval \<Rightarrow> jsval option"
  encodeURIComponent :: "jsval \<Rightarrow> string"
  dbReply :: http_reply
  chimeReply :: http_reply
  attendeeReply :: http_reply
  camMic :: permission_outcome

text \<open>
  \<open>getMeetingID\<close>: the request body's \<open>eventId\<close> is built from the clock and is not
  recorded. The function rethrows whatever it catches.
\<close>

definition getMeetingID ::
  "http_reply \<Rightarrow> jsval \<Rightarrow> jsval \<Rightarrow> (js_error + jsval) \<times> effect list" where
  "getMeetingID reply userId role =
     (let request = [ApiCall ''createInstantMeeting'' (JObj [(''initiatorId'', userId)])]
      in case reply of
           NetworkError m \<Rightarrow> (Inl m, request)
         | Reply ok status bodyText json \<Rightarrow>
             if \<not> ok then
               (Inl (''CreateInstantMeeting failed: '' @ status @
                     (if bodyText \<noteq> [] then '' | '' @ bodyText else [])), request)
             else
               (case json of
                  Inl m \<Rightarrow> (Inl m, request)
                | Inr data \<Rightarrow>
                    if nullish data then (Inl ''TypeError'', request)
                    else if truthy (field data ''success'') \<and> truthy (field data ''data'')
                    then (Inr (field data ''data''), request)
                    else (Inl (''Failed to create Scylla meeting: '' @
                               to_str (js_or (field data ''error'') (JStr ''Unknown error''))), request)))"

text \<open>\<open>createChimeMeeting\<close> does not look at \<open>response.ok\<close>.\<close>

definition createChimeMeeting ::
  "http_reply \<Rightarrow> jsval \<Rightarrow> jsval \<Rightarrow> jsval
     \<Rightarrow> (js_error + jsval \<times> jsval) \<times> effect list" where
  "createChimeMeeting reply meetingId userId role =
     (let request = [ApiCall ''createMeeting''
                        (JObj [(''action'', JStr ''createMeeting''),
                               (''externalMeetingId'', meetingId)])]
      in case reply of
           NetworkError m \<Rightarrow> (Inl m, request)
         | Reply ok status bodyText json \<Rightarrow>
             (case json of
                Inl m \<Rightarrow> (Inl m, request)
              | Inr data \<Rightarrow>
                  if nullish data then (Inl ''TypeError'', request)
                  else if truthy (field data ''meetingId'') \<and> truthy (field data ''meeting'')
                  then (Inr (field data ''meetingId'', field data ''meeting''), request)
                  else (Inl (''Failed to create Chime meeting: '' @
                             to_str (js_or (field data ''error'') (JStr ''Unknown error''))), request)))"

subsection \<open>Credential extraction of joinChimeMeeting\<close>

text \<open>
  STEP 2 of \<open>joinChimeMeeting\<close>, on the parsed addAttendee response \<open>data\<close>. The inner
  \<open>try\<close> around the decoding swallows every error, also the TypeError of reading a property
  of a decoded \<open>null\<close>; \<open>meeting\<close> and \<open>attendee\<close> then stay \<open>undefined\<close>.
\<close>

definition decodedMeeting :: "(jsval \<Rightarrow> jsval option) \<Rightarrow> jsval \<Rightarrow> jsval \<Rightarrow> jsval" where
  "decodedMeeting dec data currentMeetingId =
     (if truthy (field data ''meetingInfo'') then
        (case dec (field data ''meetingInfo'') of
           None \<Rightarrow> JUndefined
         | Some meetingInfoDecoded \<Rightarrow>
             if nullish meetingInfoDecoded then JUndefined
             else if truthy (field meetingInfoDecoded ''MediaPlacement'') \<and>
                     truthy (field (field meetingInfoDecoded ''MediaPlacement'') ''AudioHostUrl'')
             then JObj [(''MeetingId'', js_or (field meetingInfoDecoded ''MeetingId'') currentMeetingId),
                        (''MediaPlacement'', field meetingInfoDecoded ''MediaPlacement''),
                        (''MediaRegion'',
                           js_or (field meetingInfoDecoded ''MediaRegion'') (JStr ''ap-northeast-1'')),
                        (''ExternalMeetingId'',
                           js_or (field meetingInfoDecoded ''ExternalMeetingId'') currentMeetingId)]
             else JUndefined)
      else JUndefined)"

definition decodedAttendee :: "(jsval \<Rightarrow> jsval option) \<Rightarrow> jsval \<Rightarrow> jsval" where
  "decodedAttendee dec data =
     (if truthy (field data ''meetingInfo'') then
        (case dec (field data ''meetingInfo'') of
           None \<Rightarrow> JUndefined
         | Some meetingInfoDecoded \<Rightarrow>
             if nullish meetingInfoDecoded then JUndefined
             else if truthy (field meetingInfoDecoded ''Attendee'')
             then field meetingInfoDecoded ''Attendee''
             else JUndefined)
      else JUndefined)"

text \<open>
  The cascade of \<open>if (!meeting && ...)\<close> statements that follows the decoding, up to the
  value of \<open>meeting\<close> that the validation looks at.
\<close>

definition selectMeeting ::
  "(jsval \<Rightarrow> jsval option) \<Rightarrow> jsval \<Rightarrow> jsval \<Rightarrow> jsval \<Rightarrow> jsval" where
  "selectMeeting dec data currentMeetingId fullMeeting =
     (let meeting1 = decodedMeeting dec data currentMeetingId;
          meeting2 =
            (if \<not> truthy meeting1 \<and> truthy (field data ''MediaPlacement'') \<and>
                truthy (field (field data ''MediaPlacement'') ''AudioHostUrl'')
             then JObj [(''MeetingId'', currentMeetingId),
                        (''MediaPlacement'', field data ''MediaPlacement''),
                        (''MediaRegion'', js_or (field data ''MediaRegion'') (JStr ''ap-northeast-1'')),
                        (''ExternalMeetingId'', currentMeetingId)]
             else meeting1);
          meeting3 =
            (if \<not> truthy meeting2 \<and> truthy (field data ''meeting'') \<and>
                truthy (field (field data ''meeting'') ''MediaPlacement'')
             then field data ''meeting''
             else meeting2);
          meeting4 =
            (if \<not> truthy meeting3 \<and> truthy fullMeeting then fullMeeting else meeting3)
      in meeting4)"

definition MISSING_PLACEMENT :: js_error where
  "MISSING_PLACEMENT = ''addAttendee response missing Meeting with MediaPlacement''"

text \<open>
  STEP 2 as a whole: the meeting and attendee objects handed to the media engine, or the
  error thrown by the validation.
\<close>

definition extractCredentials ::
  "(jsval \<Rightarrow> jsval option) \<Rightarrow> jsval \<Rightarrow> jsval \<Rightarrow> jsval \<Rightarrow> jsval
     \<Rightarrow> js_error + jsval \<times> jsval" where
  "extractCredentials dec data chimeMeetingId userId fullMeeting =
     (let meeting = selectMeeting dec data chimeMeetingId fullMeeting;
          attendee0 = decodedAttendee dec data
      in if \<not> truthy meeting \<or> \<not> truthy (field meeting ''MediaPlacement'')
         then Inl MISSING_PLACEMENT
         else
           (let attendee =
                  (if \<not> truthy attendee0
                   then JObj [(''AttendeeId'', field data ''attendeeId''),
                              (''ExternalUserId'', userId)]
                   else attendee0)
            in Inr (meeting, attendee)))"

text \<open>
  What the \<open>try\<close> block of \<open>joinChimeMeeting\<close> makes of the addAttendee reply: the
  error it throws, or the meeting and attendee objects (STEP 1 after the request, and
  STEP 2).
\<close>

definition addAttendeeResult ::
  "environment \<Rightarrow> jsval \<Rightarrow> jsval \<Rightarrow> jsval \<Rightarrow> js_error + jsval \<times> jsval" where
  "addAttendeeResult env chimeMeetingId userId fullMeeting =
     (case attendeeReply env of
        NetworkError m \<Rightarrow> Inl m
      | Reply ok status bodyText json \<Rightarrow>
          if \<not> ok then Inl (''addAttendee failed: '' @ status)
          else
            (case json of
               Inl m \<Rightarrow> Inl m
             | Inr data \<Rightarrow>
                 if nullish data then Inl ''TypeError''
                 else if \<not> truthy (field data ''success'') \<or> \<not> truthy (field data ''attendeeId'')
                 then Inl (''addAttendee failed: '' @
                           to_str (js_or (field data ''error'') (JStr ''missing attendeeId'')))
                 else extractCredentials (decode env) data chimeMeetingId userId fullMeeting))"

text \<open>
  \<open>joinChimeMeeting\<close>: the addAttendee request, then either the error is rethrown or
  the \<open>chime:join:meeting\<close> event hands the credentials to the media engine and the
  function returns \<open>true\<close>. The status line shown through \<open>chimeHandler._updateStatus\<close>
  is not recorded. The caller's join passes no \<open>fullMeeting\<close>, which then has its
  default \<open>null\<close>.
\<close>

definition joinChimeMeeting ::
  "environment \<Rightarrow> jsval \<Rightarrow> jsval \<Rightarrow> jsval \<Rightarrow> jsval \<Rightarrow> jsval \<Rightarrow> jsval
     \<Rightarrow> (js_error + bool) \<times> effect list" where
  "joinChimeMeeting env meetingId userId role chimeMeetingId callTypeV fullMeeting =
     (let mediaType = js_or callTypeV (JStr ''video'');
          request = [ApiCall ''addAttendee''
                       (JObj [(''action'', JStr ''addAttendee''),
                              (''meetingId'', chimeMeetingId),
                              (''externalUserId'', userId),
                              (''role'', role)])]
      in case addAttendeeResult env chimeMeetingId userId fullMeeting of
           Inl err \<Rightarrow> (Inl err, request)
         | Inr credentials \<Rightarrow>
             (Inr True,
              request @
              [DocEvent ''chime:join:meeting''
                 (JObj [(''meetingInfo'', JObj [(''Meeting'', fst credentials)]),
                        (''attendeeInfo'', JObj [(''Attendee'', snd credentials)]),
                        (''userId'', userId),
                        (''role'', role),
                        (''callType'', mediaType)])]))"

section \<open>Permissions before an automatic join\<close>

text \<open>
  \<open>ensureCamMicReady\<close> never rejects; it resolves once the permission utility reports
  the needed devices as granted. The utility is outside this repository, so what it does is
  an input: the permissions are granted at the first check, or after the request, or never
  (the promise then stays pending). The first \<open>chime-ui::state\<close> event is dispatched
  synchronously; the events that follow are recorded right after it. The function reads
  \<open>_currentSide\<close> and writes no static field, so it takes the side and returns
  whether the promise resolves, with its effects. The assignment to \<open>window.callMode\<close>
  is not recorded.
\<close>

definition ensureCamMicReady ::
  "permission_outcome \<Rightarrow> jsval \<Rightarrow> string option \<Rightarrow> bool \<times> effect list" where
  "ensureCamMicReady outcome callMode sideNow =
     (let requiresCamera = (callMode \<noteq> JStr ''audio'');
          side = (case sideNow of None \<Rightarrow> ''callee'' | Some x \<Rightarrow> if x = [] then ''callee'' else x);
          acceptedState = (if side = ''caller'' then ''caller:callAccepted'' else ''callee:callAccepted'');
          permissionState = (if side = ''caller'' then ''caller:waitingForCamMicPermissions''
                             else ''callee:waitingForCamMicPermissions'');
          request = (if requiresCamera then ''CamMic:Request:Both'' else ''CamMic:Request:Microphone'');
          spinner = DocEvent ''chime-ui::state''
                      (JObj [(''state'', JStr acceptedState), (''substate'', JStr ''none'')]);
          asking = [DocEvent ''chime-ui::state''
                      (JObj [(''state'', JStr permissionState), (''substate'', JStr [])]),
                    CamMicEmit request]
      in case outcome of
           AlreadyGranted \<Rightarrow> (True, [spinner])
         | GrantedLater \<Rightarrow> (True, spinner # asking @ [spinner])
         | NeverGranted \<Rightarrow> (False, spinner # asking))"

section \<open>The callee's provisioning chain\<close>

text \<open>\<open>err && err.message ? err.message : "Unknown error"\<close>\<close>

definition error_message :: "js_error \<Rightarrow> jsval" where
  "error_message err = (if err \<noteq> [] then JStr err else JStr ''Unknown error'')"

text \<open>The \<open>.catch\<close> that ends the promise chain of both accept handlers.\<close>

definition calleeFlowCatch :: "jsval \<Rightarrow> jsval \<Rightarrow> js_error \<Rightarrow> call_state \<Rightarrow> call_state" where
  "calleeFlowCatch callerIdV calleeIdV err s =
     (let s1 = s\<lparr>inCallOrConnecting := False\<rparr>;
          s2 = dipatchUI ''callee:terminated'' ''error''
                 (JObj [(''message'', error_message err)]) s1
      in sendSocketMessage MEETING_PROBLEM
           (JObj [(''to'', callerIdV),
                  (''meetingId'', JStr ''unknown''),
                  (''callerId'', callerIdV),
                  (''calleeId'', calleeIdV),
                  (''message'', error_message err)]) s2)"

text \<open>
  The promise chain started by \<open>handleAcceptClick\<close> and by \<open>handleAppAcceptCall\<close>:
  \<open>getMeetingID(...).then(first).then(second).catch(...)\<close>. A promise is pending,
  rejected with an error, or resolved with a value.
\<close>

datatype 'a promise = Rejected js_error | Pending | Resolved 'a

text \<open>
  The first \<open>.then\<close> callback, with the promise it returns. In manual mode that is the
  promise of \<open>createChimeMeeting\<close>. In automatic mode it is
  \<open>Promise.all([createChimeMeeting(...), ensureCamMicReady(mediaType)])\<close>, which starts
  both, rejects as soon as the meeting request fails, and stays pending while the
  permissions are not granted.
\<close>

definition afterMeetingId ::
  "environment \<Rightarrow> jsval \<Rightarrow> jsval \<Rightarrow> jsval \<Rightarrow> jsval \<Rightarrow> call_state
     \<Rightarrow> (jsval \<times> jsval) promise \<times> call_state" where
  "afterMeetingId env callerIdV calleeIdV calleeRole meetingId s =
     (let s1 = sendSocketMessage MEETING_STATUS
                 (JObj [(''to'', callerIdV),
                        (''status'', JStr ''creating_chime''),
                        (''message'', JStr ''Database meeting created. Creating Chime meeting...''),
                        (''meetingId'', meetingId)]) s;
          mediaType = js_or (callType (invite s1)) (JStr ''video'');
          chime = createChimeMeeting (chimeReply env) meetingId calleeIdV calleeRole;
          s2 = emits (snd chime) s1
      in if CALLEE_MANUAL_JOIN_ENABLED env then
           (case fst chime of Inl err \<Rightarrow> Rejected err | Inr chimeData \<Rightarrow> Resolved chimeData,
            s2)
         else
           (let cam = ensureCamMicReady (camMic env) mediaType (currentSide s2)
            in (case fst chime of
                  Inl err \<Rightarrow> Rejected err
                | Inr chimeData \<Rightarrow> if fst cam then Resolved chimeData else Pending,
                emits (snd cam) s2)))"

text \<open>
  The second \<open>.then\<close> callback: MeetingReady to the caller, then either the descriptor is
  stored for the Join button (manual mode) or the callee joins at once. The two copies of
  the chain in the source differ in one place: the button handler addresses MeetingReady
  to \<open>CallHandler._invite.callerId || callerIdVal\<close>, the event handler to \<open>callerId\<close>;
  \<open>fromButton\<close> selects the copy.
\<close>

definition afterChimeMeeting ::
  "environment \<Rightarrow> bool \<Rightarrow> jsval \<Rightarrow> jsval \<Rightarrow> jsval \<Rightarrow> jsval \<Rightarrow> jsval \<Rightarrow> jsval
     \<Rightarrow> call_state \<Rightarrow> (js_error + unit) \<times> call_state" where
  "afterChimeMeeting env fromButton callerIdV calleeIdV calleeRole meetingId chimeId fullMeeting s =
     (let s1 = sendSocketMessage MEETING_READY
                 (JObj [(''to'', if fromButton then js_or (callerId (invite s)) callerIdV
                                 else callerIdV),
                        (''meetingId'', meetingId),
                        (''callerId'', callerIdV),
                        (''calleeId'', calleeIdV),
                        (''callerRole'', callerRole (invite s)),
                        (''calleeRole'', calleeRole),
                        (''chimeMeetingId'', chimeId),
                        (''dbMeetingId'', meetingId)]) s
      in if CALLEE_MANUAL_JOIN_ENABLED env then
           (Inr (),
            (dipatchUI ''callee:connected'' ''none''
               (JObj [(''meetingId'', meetingId),
                      (''userId'', calleeIdV),
                      (''role'', calleeRole)]) s1)
            \<lparr>pendingCalleeJoin :=
               Some \<lparr>pj_meetingId = meetingId,
                     pj_calleeId = calleeIdV,
                     pj_calleeRole = calleeRole,
                     pj_chimeId = chimeId,
                     pj_callType = callType (invite s1),
                     pj_fullMeeting = fullMeeting\<rparr>\<rparr>)
         else
           (let joined = joinChimeMeeting env meetingId calleeIdV calleeRole chimeId
                           (callType (invite s1)) fullMeeting;
                s2 = emits (snd joined) s1
            in case fst joined of
                 Inl err \<Rightarrow> (Inl err, s2)
               | Inr ok \<Rightarrow>
                   (Inr (),
                    dispatchEvent MEETING_CONNECT
                      (JObj [(''meetingId'', meetingId),
                             (''userId'', calleeIdV),
                             (''role'', calleeRole),
                             (''chimeMeetingId'', chimeId)]) s2)))"

text \<open>
  The chain run to its end with the replies of the environment: a rejection anywhere goes
  to the \<open>.catch\<close>; a promise that stays pending leaves the chain where it is.
\<close>

definition calleeMeetingFlow ::
  "environment \<Rightarrow> bool \<Rightarrow> jsval \<Rightarrow> jsval \<Rightarrow> jsval \<Rightarrow> call_state \<Rightarrow> call_state" where
  "calleeMeetingFlow env fromButton callerIdV calleeIdV calleeRole s =
     (let db = getMeetingID (dbReply env) calleeIdV calleeRole;
          s1 = emits (snd db) s
      in case fst db of
           Inl err \<Rightarrow> calleeFlowCatch callerIdV calleeIdV err s1
         | Inr meetingId \<Rightarrow>
             (let first = afterMeetingId env callerIdV calleeIdV calleeRole meetingId s1
              in case fst first of
                   Rejected err \<Rightarrow> calleeFlowCatch callerIdV calleeIdV err (snd first)
                 | Pending \<Rightarrow> snd first
                 | Resolved chimeData \<Rightarrow>
                     (let second = afterChimeMeeting env fromButton callerIdV calleeIdV calleeRole
                                     meetingId (fst chimeData) (snd chimeData) (snd first)
                      in case fst second of
                           Inl err \<Rightarrow> calleeFlowCatch callerIdV calleeIdV err (snd second)
                         | Inr done \<Rightarrow> snd second)))"

section \<open>Local actions of the callee\<close>

text \<open>
  The synchronous part of \<open>handleAcceptClick\<close>, up to the call of \<open>getMeetingID\<close>:
  \<open>None\<close> when one of its checks returns early, else the state in which the promise
  chain starts. The four values are read from the form controls only after the four
  elements were found.
\<close>

definition handleAcceptClick_sync :: "call_state \<Rightarrow> call_state option" where
  "handleAcceptClick_sync s =
     (let callTypeVal = the (el_callType (elements s));
          calleeRole = the (el_role (elements s));
          calleeIdVal = the (el_currentUserId (elements s));
          callerIdVal = the (el_targetUserId (elements s))
      in
        if el_currentUserId (elements s) = None then None
        else if el_targetUserId (elements s) = None then None
        else if el_callType (elements s) = None then None
        else if el_role (elements s) = None then None
        else if callTypeVal \<noteq> JStr TYPE_INSTANT then None
        else if missing callerIdVal then None
        else if missing calleeIdVal then None
        else if missing calleeRole then None
        else if callerRole (invite s) = JNull then None
        else
          (let s1 = clearCalleeRingTimer s;
               s2 = s1\<lparr>currentSide := Some ''callee''\<rparr>;
               s3 = dipatchUI ''callee:callAccepted'' ''none''
                      (JObj [(''callerId'', callerIdVal),
                             (''calleeId'', calleeIdVal),
                             (''role'', calleeRole)]) s2;
               s4 = s3\<lparr>inCallOrConnecting := True\<rparr>;
               s5 = sendSocketMessage SELF_STOP_RING
                      (JObj [(''to'', calleeIdVal), (''calleeId'', calleeIdVal)]) s4;
               s6 = sendSocketMessage CALL_ACCEPTED
                      (JObj [(''to'', callerIdVal),
                             (''callerId'', callerIdVal),
                             (''calleeId'', calleeIdVal)]) s5;
               s7 = dispatchEvent CALL_ACCEPTED
                      (JObj [(''callerId'', callerIdVal), (''calleeId'', calleeIdVal)]) s6
           in Some (sendSocketMessage MEETING_STATUS
                      (JObj [(''to'', callerIdVal),
                             (''status'', JStr ''creating_db''),
                             (''message'', JStr ''Creating meeting in database...'')]) s7)))"

definition handleAcceptClick :: "environment \<Rightarrow> call_state \<Rightarrow> call_state" where
  "handleAcceptClick env s =
     (case handleAcceptClick_sync s of
        None \<Rightarrow> s
      | Some s' \<Rightarrow>
          calleeMeetingFlow env True
            (the (el_targetUserId (elements s))) (the (el_currentUserId (elements s)))
            (the (el_role (elements s))) s')"

text \<open>\<open>e && e.detail ? e.detail : undefined\<close>\<close>

definition event_detail :: "jsval \<Rightarrow> jsval" where
  "event_detail e = (if truthy e \<and> truthy (field e ''detail'') then field e ''detail'' else JUndefined)"

text \<open>The synchronous part of \<open>handleAppAcceptCall\<close>, in the same form.\<close>

definition handleAppAcceptCall_sync :: "jsval \<Rightarrow> call_state \<Rightarrow> call_state option" where
  "handleAppAcceptCall_sync e s =
     (let d = event_detail e
      in if \<not> truthy d then None
         else if field d ''callType'' \<noteq> JStr TYPE_INSTANT then None
         else if missing (field d ''callerId'') then None
         else if missing (field d ''calleeId'') then None
         else if missing (field d ''role'') then None
         else if callerRole (invite s) = JNull then None
         else
           (let s1 = s\<lparr>currentSide := Some ''callee''\<rparr>;
                s2 = dipatchUI ''callee:callAccepted'' ''none''
                       (JObj [(''callerId'', field d ''callerId''),
                              (''calleeId'', field d ''calleeId''),
                              (''role'', field d ''role'')]) s1;
                s3 = sendSocketMessage SELF_STOP_RING
                       (JObj [(''to'', field d ''calleeId''), (''calleeId'', field d ''calleeId'')]) s2;
                s4 = sendSocketMessage CALL_ACCEPTED
                       (JObj [(''to'', field d ''callerId''),
                              (''callerId'', field d ''callerId''),
                              (''calleeId'', field d ''calleeId'')]) s3;
                s5 = dispatchEvent CALL_ACCEPTED
                       (JObj [(''callerId'', field d ''callerId''),
                              (''calleeId'', field d ''calleeId'')]) s4
            in Some (sendSocketMessage MEETING_STATUS
                       (JObj [(''to'', field d ''callerId''),
                              (''status'', JStr ''creating_db''),
                              (''message'', JStr ''Creating meeting in database...'')]) s5)))"

definition handleAppAcceptCall :: "environment \<Rightarrow> jsval \<Rightarrow> call_state \<Rightarrow> call_state" where
  "handleAppAcceptCall env e s =
     (case handleAppAcceptCall_sync e s of
        None \<Rightarrow> s
      | Some s' \<Rightarrow>
          calleeMeetingFlow env False
            (field (event_detail e) ''callerId'') (field (event_detail e) ''calleeId'')
            (field (event_detail e) ''role'') s')"

text \<open>
  \<open>handleManualCalleeJoin\<close>: the synchronous part empties the pending slot and starts the
  join; the promise then settles into MEETING_CONNECT or into the \<open>.catch\<close>.
\<close>

definition handleManualCalleeJoin :: "environment \<Rightarrow> call_state \<Rightarrow> call_state" where
  "handleManualCalleeJoin env s =
     (case pendingCalleeJoin s of
        None \<Rightarrow> s
      | Some p \<Rightarrow>
          (let s1 = s\<lparr>pendingCalleeJoin := None\<rparr>;
               joined = joinChimeMeeting env (pj_meetingId p) (pj_calleeId p) (pj_calleeRole p)
                          (pj_chimeId p) (pj_callType p) (pj_fullMeeting p);
               s2 = emits (snd joined) s1
           in case fst joined of
                Inr ok \<Rightarrow>
                  dispatchEvent MEETING_CONNECT
                    (JObj [(''meetingId'', pj_meetingId p),
                           (''userId'', pj_calleeId p),
                           (''role'', pj_calleeRole p),
                           (''chimeMeetingId'', pj_chimeId p)]) s2
              | Inl err \<Rightarrow>
                  dipatchUI ''callee:terminated'' ''error''
                    (JObj [(''message'', error_message err)])
                    (s2\<lparr>inCallOrConnecting := False\<rparr>)))"

section \<open>The caller's side\<close>

definition handleAppStartCall :: "jsval \<Rightarrow> call_state \<Rightarrow> call_state" where
  "handleAppStartCall e s =
     (let d = event_detail e
      in if \<not> truthy d then s
         else if field d ''callType'' \<noteq> JStr TYPE_INSTANT then s
         else if missing (field d ''callerId'') then s
         else if missing (field d ''calleeId'') then s
         else if missing (field d ''role'') then s
         else
           (let s1 = dispatchEvent CALL_INITIATE
                       (JObj [(''callerId'', field d ''callerId''),
                              (''calleeId'', field d ''calleeId''),
                              (''type'', field d ''callType''),
                              (''role'', field d ''role'')]) s;
                s2 = sendSocketMessage CALL_INITIATE
                       (JObj [(''to'', field d ''calleeId''),
                              (''callType'', field d ''callType''),
                              (''callerId'', field d ''callerId''),
                              (''calleeId'', field d ''calleeId''),
                              (''role'', field d ''role'')]) s1;
                s3 = s2\<lparr>currentSide := Some ''caller''\<rparr>;
                s4 = dipatchUI ''caller:callWaiting'' ''none''
                       (JObj [(''callerId'', field d ''callerId''),
                              (''calleeId'', field d ''calleeId''),
                              (''role'', field d ''role'')]) s3;
                s5 = clearCallerRingTimer s4;
                (h, s6) = setTimeout (CallerRingTimeout (field d ''callerId'') (field d ''calleeId'')) s5
            in s6\<lparr>callerRingTimerId := Some h\<rparr>))"

text \<open>
  \<open>handleSocketMeetingReady\<close>: the caller joins with the ids of the message and the call
  type it stored when it started the call; no \<open>fullMeeting\<close> is passed.
\<close>

definition handleSocketMeetingReady :: "environment \<Rightarrow> jsval \<Rightarrow> call_state \<Rightarrow> call_state" where
  "handleSocketMeetingReady env body s =
     (if \<not> truthy body then s
      else if missing (field body ''meetingId'') then s
      else if missing (field body ''callerId'') then s
      else if missing (field body ''calleeId'') then s
      else if missing (field body ''callerRole'') then s
      else if missing (field body ''calleeRole'') then s
      else
        (let joinUrl = ''https://example.com/join/'' @ encodeURIComponent env (field body ''meetingId'')
                       @ ''?user='' @ encodeURIComponent env (field body ''callerId'')
                       @ ''&role='' @ encodeURIComponent env (field body ''callerRole'');
             s1 = dipatchUI ''caller:callAccepted'' ''none''
                    (JObj [(''side'', JStr ''caller''),
                           (''meetingId'', field body ''meetingId''),
                           (''joinUrl'', JStr joinUrl),
                           (''callerId'', field body ''callerId''),
                           (''calleeId'', field body ''calleeId''),
                           (''callerRole'', field body ''callerRole''),
                           (''calleeRole'', field body ''calleeRole'')]) s;
             joined = joinChimeMeeting env (field body ''meetingId'') (field body ''callerId'')
                        (field body ''callerRole'') (field body ''chimeMeetingId'')
                        (callType (invite s1)) JNull;
             s2 = emits (snd joined) s1
         in case fst joined of
              Inr ok \<Rightarrow> s2
            | Inl err \<Rightarrow>
                (let s3 = dipatchUI ''caller:terminated'' ''error''
                            (JObj [(''message'', JStr ''caller join failed''),
                                   (''meetingId'', field body ''meetingId'')]) s2
                 in dispatchEvent MEETING_PROBLEM
                      (JObj [(''meetingId'', field body ''meetingId''),
                             (''callerId'', field body ''callerId''),
                             (''calleeId'', field body ''calleeId''),
                             (''message'', JStr ''join failed'')]) s3)))"

section \<open>Initial state and observations on traces\<close>

text \<open>The static initialisers of the class, with the form controls found by \<open>init\<close>.\<close>

definition init_state :: "els \<Rightarrow> call_state" where
  "init_state e =
     \<lparr>invite = \<lparr>callerId = JNull, calleeId = JNull, callerRole = JNull, callType = JNull,
                callerData = JNull, calleeData = JNull\<rparr>,
      calleeRingTimerId = None,
      callerRingTimerId = None,
      inCallOrConnecting = False,
      pendingCalleeJoin = None,
      currentSide = None,
      elements = e,
      timers = [],
      nextTimerId = 1,
      trace = []\<rparr>"

text \<open>What a handler added to the trace, and the payloads it sent under a given flag.\<close>

definition new_effects :: "call_state \<Rightarrow> call_state \<Rightarrow> effect list" where
  "new_effects s s' = drop (length (trace s)) (trace s')"

fun sent_with :: "string \<Rightarrow> effect list \<Rightarrow> jsval list" where
  "sent_with flag [] = []"
| "sent_with flag (SocketSend f p # es) = (if f = flag then p # sent_with flag es else sent_with flag es)"
| "sent_with flag (e # es) = sent_with flag es"

text \<open>The requests of joins and the UI states dispatched, as they appear in a trace.\<close>

fun join_attempts :: "effect list \<Rightarrow> jsval list" where
  "join_attempts [] = []"
| "join_attempts (ApiCall a b # es) = (if a = ''addAttendee'' then b # join_attempts es else join_attempts es)"
| "join_attempts (e # es) = join_attempts es"

fun ui_dispatches :: "effect list \<Rightarrow> (string \<times> string) list" where
  "ui_dispatches [] = []"
| "ui_dispatches (UIDispatch st sub p # es) = (st, sub) # ui_dispatches es"
| "ui_dispatches (e # es) = ui_dispatches es"

section \<open>Message kinds, their schemas and the checks of their handlers\<close>

datatype message_kind =
    Initiate | Accepted | Declined | Cancelled | Timeout | SelfStopRing | MeetingReady | MeetingProblem

text \<open>The listeners that \<open>init\<close> registers with \<open>SocketHandler.registerSocketListener\<close>.\<close>

fun handleSocket :: "environment \<Rightarrow> message_kind \<Rightarrow> jsval \<Rightarrow> call_state \<Rightarrow> call_state" where
  "handleSocket env Initiate = handleSocketIncomingCall"
| "handleSocket env Accepted = handleSocketAccepted"
| "handleSocket env Declined = handleSocketDeclined"
| "handleSocket env Cancelled = handleSocketCancelled"
| "handleSocket env Timeout = handleSocketTimeout"
| "handleSocket env SelfStopRing = handleSocketSelfStopRinging"
| "handleSocket env MeetingReady = handleSocketMeetingReady env"
| "handleSocket env MeetingProblem = handleSocketMeetingProblem"

text \<open>
  The table \<open>CallHandler.SCHEMA\<close>: every listed field is \<open>{ type: "string", required: true }\<close>.
\<close>

fun SCHEMA :: "message_kind \<Rightarrow> string list" where
  "SCHEMA Initiate = [''to'', ''callType'', ''callerId'', ''calleeId'', ''role'']"
| "SCHEMA Accepted = [''to'', ''callerId'', ''calleeId'']"
| "SCHEMA Declined = [''to'', ''callerId'', ''calleeId'', ''reason'']"
| "SCHEMA Cancelled = [''to'', ''callerId'', ''calleeId'']"
| "SCHEMA Timeout = [''to'', ''callerId'', ''calleeId'']"
| "SCHEMA SelfStopRing = [''to'', ''calleeId'']"
| "SCHEMA MeetingReady = [''to'', ''meetingId'', ''callerId'', ''calleeId'', ''callerRole'', ''calleeRole'']"
| "SCHEMA MeetingProblem = [''to'', ''meetingId'', ''callerId'', ''calleeId'', ''message'']"

fun is_string :: "jsval \<Rightarrow> bool" where
  "is_string (JStr s) = True"
| "is_string v = False"

text \<open>A body conforms to the schema of its kind when every required field holds a string.\<close>

definition conforms :: "message_kind \<Rightarrow> jsval \<Rightarrow> bool" where
  "conforms kind body \<longleftrightarrow> list_all (\<lambda>f. is_string (field body f)) (SCHEMA kind)"

text \<open>
  The fields that the handler of each kind tests with \<open>=== undefined || === ""\<close> before it
  does anything. Four handlers test; the other four have no test at all.
\<close>

fun checked_fields :: "message_kind \<Rightarrow> string list" where
  "checked_fields Initiate = [''callerId'', ''calleeId'', ''role'']"
| "checked_fields Accepted = [''callerId'', ''calleeId'']"
| "checked_fields Declined = [''callerId'', ''calleeId'', ''reason'']"
| "checked_fields MeetingReady = [''meetingId'', ''callerId'', ''calleeId'', ''callerRole'', ''calleeRole'']"
| "checked_fields kind = []"

fun validating :: "message_kind \<Rightarrow> bool" where
  "validating Initiate = True"
| "validating Accepted = True"
| "validating Declined = True"
| "validating MeetingReady = True"
| "validating kind = False"

text \<open>
  A body passes the handler's checks: it is truthy, none of the checked fields is
  \<open>undefined\<close> or empty, and an Initiate is of the instant call type.
\<close>

definition passes_checks :: "message_kind \<Rightarrow> jsval \<Rightarrow> bool" where
  "passes_checks kind body \<longleftrightarrow>
     truthy body \<and>
     list_all (\<lambda>f. \<not> missing (field body f)) (checked_fields kind) \<and>
     (if kind = Initiate then field body ''callType'' = JStr TYPE_INSTANT else True)"

section \<open>Candidates of the credential extraction\<close>

text \<open>
  The places \<open>joinChimeMeeting\<close> looks for the meeting, each as a candidate that is
  \<open>undefined\<close> when its own test fails: the decoded \<open>meetingInfo\<close> envelope and the
  top-level form (both need \<open>MediaPlacement.AudioHostUrl\<close>), the \<open>meeting\<close> field of
  the response (needs \<open>MediaPlacement\<close>), and the \<open>fullMeeting\<close> passed in.
\<close>

definition flattenedMeeting :: "jsval \<Rightarrow> jsval \<Rightarrow> jsval" where
  "flattenedMeeting data currentMeetingId =
     (if truthy (field data ''MediaPlacement'') \<and>
         truthy (field (field data ''MediaPlacement'') ''AudioHostUrl'')
      then JObj [(''MeetingId'', currentMeetingId),
                 (''MediaPlacement'', field data ''MediaPlacement''),
                 (''MediaRegion'', js_or (field data ''MediaRegion'') (JStr ''ap-northeast-1'')),
                 (''ExternalMeetingId'', currentMeetingId)]
      else JUndefined)"

definition meetingField :: "jsval \<Rightarrow> jsval" where
  "meetingField data =
     (if truthy (field data ''meeting'') \<and> truthy (field (field data ''meeting'') ''MediaPlacement'')
      then field data ''meeting'' else JUndefined)"

text \<open>
  The first candidate, said in terms of the decoding alone. The envelope is what
  \<open>JSON.parse(atob(data.meetingInfo))\<close> yields, \<open>undefined\<close> when the response has no
  \<open>meetingInfo\<close> or the decoding throws; the meeting is built from an envelope that has
  \<open>MediaPlacement.AudioHostUrl\<close>, with the envelope's own ids and region where it has
  them. On a decoded \<open>null\<close> the property access throws inside the \<open>try\<close> and
  \<open>meeting\<close> stays \<open>undefined\<close>, which is what the test below gives on \<open>null\<close> as
  well.
\<close>

definition meetingInfoEnvelope :: "(jsval \<Rightarrow> jsval option) \<Rightarrow> jsval \<Rightarrow> jsval" where
  "meetingInfoEnvelope dec data =
     (if truthy (field data ''meetingInfo'') then
        (case dec (field data ''meetingInfo'') of None \<Rightarrow> JUndefined | Some envelope \<Rightarrow> envelope)
      else JUndefined)"

definition nestedMeeting :: "jsval \<Rightarrow> jsval \<Rightarrow> jsval" where
  "nestedMeeting envelope currentMeetingId =
     (if truthy (field envelope ''MediaPlacement'') \<and>
         truthy (field (field envelope ''MediaPlacement'') ''AudioHostUrl'')
      then JObj [(''MeetingId'', js_or (field envelope ''MeetingId'') currentMeetingId),
                 (''MediaPlacement'', field envelope ''MediaPlacement''),
                 (''MediaRegion'', js_or (field envelope ''MediaRegion'') (JStr ''ap-northeast-1'')),
                 (''ExternalMeetingId'', js_or (field envelope ''ExternalMeetingId'') currentMeetingId)]
      else JUndefined)"

definition candidates :: "(jsval \<Rightarrow> jsval option) \<Rightarrow> jsval \<Rightarrow> jsval \<Rightarrow> jsval \<Rightarrow> jsval list" where
  "candidates dec data chimeMeetingId fullMeeting =
     [nestedMeeting (meetingInfoEnvelope dec data) chimeMeetingId,
      flattenedMeeting data chimeMeetingId,
      meetingField data,
      fullMeeting]"

text \<open>A candidate is structurally valid when it carries transport placement info.\<close>

definition has_placement :: "jsval \<Rightarrow> bool" where
  "has_placement c \<longleftrightarrow> truthy c \<and> truthy (field c ''MediaPlacement'')"

text \<open>
  The three candidates as the specification lists them: the decoded nested envelope, the
  top-level flattened form, the caller-supplied fallback descriptor.
\<close>

definition spec_candidates :: "(jsval \<Rightarrow> jsval option) \<Rightarrow> jsval \<Rightarrow> jsval \<Rightarrow> jsval \<Rightarrow> jsval list" where
  "spec_candidates dec data chimeMeetingId fullMeeting =
     [nestedMeeting (meetingInfoEnvelope dec data) chimeMeetingId,
      flattenedMeeting data chimeMeetingId,
      fullMeeting]"

section \<open>A scenario\<close>

text \<open>
  Bob's page: the call-type and role controls are set, his own id is in the first input
  and the id ``mallory'' is typed into the target input. Alice invites Bob; Bob himself
  calls Carol through \<open>app:call:start\<close>, and Carol accepts.
\<close>

definition bob_els :: els where
  "bob_els = \<lparr>el_callType = Some (JStr TYPE_INSTANT), el_role = Some (JStr ''guest''),
              el_currentUserId = Some (JStr ''bob''), el_targetUserId = Some (JStr ''mallory'')\<rparr>"

definition initiate_from_alice :: jsval where
  "initiate_from_alice =
     JObj [(''to'', JStr ''bob''), (''callType'', JStr TYPE_INSTANT), (''callerId'', JStr ''alice''),
           (''calleeId'', JStr ''bob''), (''role'', JStr ''host'')]"

text \<open>
  Two more invitations from Alice, each with a string in every field of the schema: one
  for a scheduled call, one whose \<open>role\<close> is the empty string.
\<close>

definition scheduled_initiate_from_alice :: jsval where
  "scheduled_initiate_from_alice =
     JObj [(''to'', JStr ''bob''), (''callType'', JStr TYPE_SCHEDULED), (''callerId'', JStr ''alice''),
           (''calleeId'', JStr ''bob''), (''role'', JStr ''host'')]"

definition initiate_with_empty_role :: jsval where
  "initiate_with_empty_role =
     JObj [(''to'', JStr ''bob''), (''callType'', JStr TYPE_INSTANT), (''callerId'', JStr ''alice''),
           (''calleeId'', JStr ''bob''), (''role'', JStr [])]"

definition start_call_to_carol :: jsval where
  "start_call_to_carol =
     JObj [(''detail'',
            JObj [(''callerId'', JStr ''bob''), (''calleeId'', JStr ''carol''),
                  (''role'', JStr ''host''), (''callType'', JStr TYPE_INSTANT)])]"

definition accepted_by_carol :: jsval where
  "accepted_by_carol =
     JObj [(''to'', JStr ''bob''), (''callerId'', JStr ''bob''), (''calleeId'', JStr ''carol'')]"

definition declined_by_carol :: jsval where
  "declined_by_carol =
     JObj [(''to'', JStr ''bob''), (''callerId'', JStr ''bob''), (''calleeId'', JStr ''carol''),
           (''reason'', JStr ''busy'')]"

definition ready_from_carol :: jsval where
  "ready_from_carol =
     JObj [(''to'', JStr ''bob''), (''meetingId'', JStr ''m-1''), (''callerId'', JStr ''bob''),
           (''calleeId'', JStr ''carol''), (''callerRole'', JStr ''host''),
           (''calleeRole'', JStr ''guest''), (''chimeMeetingId'', JStr ''chime-1''),
           (''dbMeetingId'', JStr ''m-1'')]"

definition cancelled_by_alice :: jsval where
  "cancelled_by_alice =
     JObj [(''to'', JStr ''bob''), (''callerId'', JStr ''alice''), (''calleeId'', JStr ''bob'')]"

definition self_stop_for_bob :: jsval where
  "self_stop_for_bob = JObj [(''to'', JStr ''bob''), (''calleeId'', JStr ''bob'')]"

text \<open>A Timeout message that lacks both ids its schema requires.\<close>

definition timeout_without_ids :: jsval where
  "timeout_without_ids = JObj [(''to'', JStr ''bob'')]"

text \<open>An Accepted message that lacks the \<open>to\<close> its schema requires.\<close>

definition accepted_without_to :: jsval where
  "accepted_without_to = JObj [(''callerId'', JStr ''bob''), (''calleeId'', JStr ''carol'')]"

text \<open>A Declined message without a reason.\<close>

definition declined_without_reason :: jsval where
  "declined_without_reason =
     JObj [(''to'', JStr ''bob''), (''callerId'', JStr ''bob''), (''calleeId'', JStr ''carol'')]"

definition accept_event :: jsval where
  "accept_event =
     JObj [(''detail'',
            JObj [(''callerId'', JStr ''alice''), (''calleeId'', JStr ''bob''),
                  (''role'', JStr ''guest''), (''callType'', JStr TYPE_INSTANT)])]"

text \<open>Bob rings as callee; Bob rings as caller; both at once; Bob's call was accepted.\<close>

definition bob_ringing :: call_state where
  "bob_ringing = handleSocketIncomingCall initiate_from_alice (init_state bob_els)"

definition bob_calling :: call_state where
  "bob_calling = handleAppStartCall start_call_to_carol (init_state bob_els)"

definition bob_calling_and_ringing :: call_state where
  "bob_calling_and_ringing = handleSocketIncomingCall initiate_from_alice bob_calling"

definition bob_accepted :: call_state where
  "bob_accepted = handleSocketAccepted accepted_by_carol bob_calling"

text \<open>Carol accepts while Alice's invitation is still ringing on Bob's page.\<close>

definition bob_accepted_while_ringing :: call_state where
  "bob_accepted_while_ringing = handleSocketAccepted accepted_by_carol bob_calling_and_ringing"

text \<open>
  Environments: every remote call fails at the network; the two meeting requests succeed
  (manual join); the addAttendee request is answered with status 500.
\<close>

definition offline_env :: environment where
  "offline_env =
     \<lparr>CALLEE_MANUAL_JOIN_ENABLED = True, decode = (\<lambda>x. None), encodeURIComponent = to_str,
      dbReply = NetworkError ''Failed to fetch'', chimeReply = NetworkError ''Failed to fetch'',
      attendeeReply = NetworkError ''Failed to fetch'', camMic = AlreadyGranted\<rparr>"

definition provisioning_env :: environment where
  "provisioning_env =
     offline_env
       \<lparr>dbReply := Reply True ''200 OK'' []
                     (Inr (JObj [(''success'', JBool True), (''data'', JStr ''m-1'')])),
        chimeReply := Reply True ''200 OK'' []
                     (Inr (JObj [(''meetingId'', JStr ''chime-1''),
                                 (''meeting'', JObj [(''MediaPlacement'',
                                                      JObj [(''AudioHostUrl'', JStr ''wss://a'')])])]))\<rparr>"

definition failing_join_env :: environment where
  "failing_join_env =
     offline_env\<lparr>attendeeReply := Reply False ''500 Internal Server Error'' [] (Inl [])\<rparr>"

text \<open>
  Two addAttendee responses: one in the flattened top-level form, one that carries the
  meeting in a \<open>meeting\<close> field only; and a descriptor as \<open>createChimeMeeting\<close> returns
  it, to be passed as the fallback.
\<close>

definition attendee_flat :: jsval where
  "attendee_flat =
     JObj [(''success'', JBool True), (''attendeeId'', JStr ''att-1''),
           (''MediaPlacement'', JObj [(''AudioHostUrl'', JStr ''wss://a'')])]"

definition attendee_with_meeting_field :: jsval where
  "attendee_with_meeting_field =
     JObj [(''success'', JBool True), (''attendeeId'', JStr ''att-1''),
           (''meeting'', JObj [(''MediaPlacement'', JObj [(''AudioHostUrl'', JStr ''wss://a'')])])]"

definition fallback_meeting :: jsval where
  "fallback_meeting =
     JObj [(''MeetingId'', JStr ''chime-1''),
           (''MediaPlacement'', JObj [(''AudioHostUrl'', JStr ''wss://b'')])]"

definition flat_join_env :: environment where
  "flat_join_env = offline_env\<lparr>attendeeReply := Reply True ''200 OK'' [] (Inr attendee_flat)\<rparr>"

text \<open>
  Two \<open>meetingInfo\<close> strings, the base64 text of
  \<open>{"MeetingId":"chime-9","MediaPlacement":{"AudioHostUrl":"wss://n"},"Attendee":{"AttendeeId":"att-9"}}\<close>
  and of \<open>{"MeetingId":"chime-9","MediaPlacement":{"SignalingUrl":"wss://s"}}\<close>, the
  envelopes they decode to, and the decoding on these two strings (it throws on every
  other value of the scenario).
\<close>

definition meetingInfo_with_audio :: string where
  "meetingInfo_with_audio =
     ''eyJNZWV0aW5nSWQiOiJjaGltZS05IiwiTWVkaWFQbGFjZW1lbnQiOnsiQXVkaW9Ib3N0VXJs'' @
     ''Ijoid3NzOi8vbiJ9LCJBdHRlbmRlZSI6eyJBdHRlbmRlZUlkIjoiYXR0LTkifX0=''"

definition meetingInfo_without_audio :: string where
  "meetingInfo_without_audio =
     ''eyJNZWV0aW5nSWQiOiJjaGltZS05IiwiTWVkaWFQbGFjZW1lbnQiOnsiU2lnbmFsaW5nVXJs'' @
     ''Ijoid3NzOi8vcyJ9fQ==''"

definition envelope_with_audio :: jsval where
  "envelope_with_audio =
     JObj [(''MeetingId'', JStr ''chime-9''),
           (''MediaPlacement'', JObj [(''AudioHostUrl'', JStr ''wss://n'')]),
           (''Attendee'', JObj [(''AttendeeId'', JStr ''att-9'')])]"

definition envelope_without_audio :: jsval where
  "envelope_without_audio =
     JObj [(''MeetingId'', JStr ''chime-9''),
           (''MediaPlacement'', JObj [(''SignalingUrl'', JStr ''wss://s'')])]"

definition sample_decode :: "jsval \<Rightarrow> jsval option" where
  "sample_decode v =
     (if v = JStr meetingInfo_with_audio then Some envelope_with_audio
      else if v = JStr meetingInfo_without_audio then Some envelope_without_audio
      else None)"

text \<open>
  Two addAttendee responses that carry a \<open>meetingInfo\<close> as well as a top-level
  \<open>MediaPlacement\<close>: in the first the envelope has \<open>AudioHostUrl\<close>, in the second it has
  a \<open>MediaPlacement\<close> without it.
\<close>

definition attendee_nested :: jsval where
  "attendee_nested =
     JObj [(''success'', JBool True), (''attendeeId'', JStr ''att-1''),
           (''meetingInfo'', JStr meetingInfo_with_audio),
           (''MediaPlacement'', JObj [(''AudioHostUrl'', JStr ''wss://a'')])]"

definition attendee_nested_without_audio :: jsval where
  "attendee_nested_without_audio =
     JObj [(''success'', JBool True), (''attendeeId'', JStr ''att-1''),
           (''meetingInfo'', JStr meetingInfo_without_audio),
           (''MediaPlacement'', JObj [(''AudioHostUrl'', JStr ''wss://a'')])]"

definition nested_join_env :: environment where
  "nested_join_env =
     offline_env\<lparr>decode := sample_decode,
                 attendeeReply := Reply True ''200 OK'' [] (Inr attendee_nested)\<rparr>"

definition without_audio_join_env :: environment where
  "without_audio_join_env =
     offline_env\<lparr>decode := sample_decode,
                 attendeeReply := Reply True ''200 OK'' [] (Inr attendee_nested_without_audio)\<rparr>"

section \<open>Basic facts about the effect primitives and the timers\<close>

lemmas flag_defs =
  CALL_INITIATE_def CALL_RINGING_def CALL_ACCEPTED_def CALL_DECLINED_def CALL_TIMEOUT_def
  CALL_CANCELLED_def CALL_ENDED_def SELF_STOP_RING_def MEETING_READY_def MEETING_CONNECT_def
  MEETING_PROBLEM_def MEETING_STATUS_def

lemma emit_simps [simp]:
  "trace (emit e s) = trace s @ [e]"
  "invite (emit e s) = invite s"
  "calleeRingTimerId (emit e s) = calleeRingTimerId s"
  "callerRingTimerId (emit e s) = callerRingTimerId s"
  "inCallOrConnecting (emit e s) = inCallOrConnecting s"
  "pendingCalleeJoin (emit e s) = pendingCalleeJoin s"
  "currentSide (emit e s) = currentSide s"
  "elements (emit e s) = elements s"
  "timers (emit e s) = timers s"
  "nextTimerId (emit e s) = nextTimerId s"
  by (simp_all add: emit_def)

lemmas send_defs = sendSocketMessage_def dipatchUI_def dispatchEvent_def

lemma sent_with_append [simp]: "sent_with f (xs @ ys) = sent_with f xs @ sent_with f ys"
  by (induction f xs rule: sent_with.induct) simp_all

lemma ui_dispatches_append [simp]: "ui_dispatches (xs @ ys) = ui_dispatches xs @ ui_dispatches ys"
  by (induction xs rule: ui_dispatches.induct) simp_all

lemma join_attempts_append [simp]: "join_attempts (xs @ ys) = join_attempts xs @ join_attempts ys"
  by (induction xs rule: join_attempts.induct) simp_all

lemma clearCallerRingTimer_simps [simp]:
  "callerRingTimerId (clearCallerRingTimer s) = None"
  "calleeRingTimerId (clearCallerRingTimer s) = calleeRingTimerId s"
  "trace (clearCallerRingTimer s) = trace s"
  "invite (clearCallerRingTimer s) = invite s"
  "inCallOrConnecting (clearCallerRingTimer s) = inCallOrConnecting s"
  "pendingCalleeJoin (clearCallerRingTimer s) = pendingCalleeJoin s"
  "currentSide (clearCallerRingTimer s) = currentSide s"
  "elements (clearCallerRingTimer s) = elements s"
  "nextTimerId (clearCallerRingTimer s) = nextTimerId s"
  "timers (clearCallerRingTimer s) = filter (\<lambda>p. Some (fst p) \<noteq> callerRingTimerId s) (timers s)"
  by (simp_all add: clearCallerRingTimer_def clearTimeout_def split: option.splits)

lemma clearCalleeRingTimer_simps [simp]:
  "calleeRingTimerId (clearCalleeRingTimer s) = None"
  "callerRingTimerId (clearCalleeRingTimer s) = callerRingTimerId s"
  "trace (clearCalleeRingTimer s) = trace s"
  "invite (clearCalleeRingTimer s) = invite s"
  "inCallOrConnecting (clearCalleeRingTimer s) = inCallOrConnecting s"
  "pendingCalleeJoin (clearCalleeRingTimer s) = pendingCalleeJoin s"
  "currentSide (clearCalleeRingTimer s) = currentSide s"
  "elements (clearCalleeRingTimer s) = elements s"
  "nextTimerId (clearCalleeRingTimer s) = nextTimerId s"
  "timers (clearCalleeRingTimer s) = filter (\<lambda>p. Some (fst p) \<noteq> calleeRingTimerId s) (timers s)"
  by (simp_all add: clearCalleeRingTimer_def clearTimeout_def split: option.splits)

section \<open>Basic facts about the meeting operations and the provisioning chain\<close>

lemma emits_simps [simp]:
  "trace (emits es s) = trace s @ es"
  "invite (emits es s) = invite s"
  "calleeRingTimerId (emits es s) = calleeRingTimerId s"
  "callerRingTimerId (emits es s) = callerRingTimerId s"
  "inCallOrConnecting (emits es s) = inCallOrConnecting s"
  "pendingCalleeJoin (emits es s) = pendingCalleeJoin s"
  "currentSide (emits es s) = currentSide s"
  "elements (emits es s) = elements s"
  "timers (emits es s) = timers s"
  "nextTimerId (emits es s) = nextTimerId s"
  by (simp_all add: emits_def)

lemma getMeetingID_effects [simp]:
  "snd (getMeetingID reply u r) = [ApiCall ''createInstantMeeting'' (JObj [(''initiatorId'', u)])]"
  by (simp add: getMeetingID_def Let_def split: http_reply.splits sum.splits)

lemma createChimeMeeting_effects [simp]:
  "snd (createChimeMeeting reply m u r) =
     [ApiCall ''createMeeting'' (JObj [(''action'', JStr ''createMeeting''), (''externalMeetingId'', m)])]"
  by (simp add: createChimeMeeting_def Let_def split: http_reply.splits sum.splits)

lemma joinChimeMeeting_effects [simp]:
  "sent_with fl (snd (joinChimeMeeting env m u r c t f)) = []"
  "ui_dispatches (snd (joinChimeMeeting env m u r c t f)) = []"
  "join_attempts (snd (joinChimeMeeting env m u r c t f)) =
     [JObj [(''action'', JStr ''addAttendee''), (''meetingId'', c),
            (''externalUserId'', u), (''role'', r)]]"
  by (simp_all add: joinChimeMeeting_def Let_def split: sum.splits)

lemma ensureCamMicReady_effects [simp]:
  "sent_with fl (snd (ensureCamMicReady outcome mode side)) = []"
  "ui_dispatches (snd (ensureCamMicReady outcome mode side)) = []"
  "join_attempts (snd (ensureCamMicReady outcome mode side)) = []"
  by (cases outcome; simp add: ensureCamMicReady_def Let_def)+

lemma afterMeetingId_fields [simp]:
  "invite (snd (afterMeetingId env c e r m s)) = invite s"
  "calleeRingTimerId (snd (afterMeetingId env c e r m s)) = calleeRingTimerId s"
  "callerRingTimerId (snd (afterMeetingId env c e r m s)) = callerRingTimerId s"
  "inCallOrConnecting (snd (afterMeetingId env c e r m s)) = inCallOrConnecting s"
  "pendingCalleeJoin (snd (afterMeetingId env c e r m s)) = pendingCalleeJoin s"
  "currentSide (snd (afterMeetingId env c e r m s)) = currentSide s"
  "elements (snd (afterMeetingId env c e r m s)) = elements s"
  "timers (snd (afterMeetingId env c e r m s)) = timers s"
  "nextTimerId (snd (afterMeetingId env c e r m s)) = nextTimerId s"
  by (simp_all add: afterMeetingId_def Let_def send_defs)

lemma afterMeetingId_trace:
  "\<exists>es. trace (snd (afterMeetingId env c e r m s)) = trace s @ es
      \<and> sent_with CALL_ACCEPTED es = [] \<and> sent_with SELF_STOP_RING es = []
      \<and> sent_with CALL_DECLINED es = [] \<and> sent_with MEETING_READY es = []
      \<and> sent_with MEETING_PROBLEM es = [] \<and> join_attempts es = [] \<and> ui_dispatches es = []"
  by (simp add: afterMeetingId_def Let_def send_defs flag_defs)

lemma afterChimeMeeting_fields [simp]:
  "invite (snd (afterChimeMeeting env fb c e r m ch fm s)) = invite s"
  "calleeRingTimerId (snd (afterChimeMeeting env fb c e r m ch fm s)) = calleeRingTimerId s"
  "callerRingTimerId (snd (afterChimeMeeting env fb c e r m ch fm s)) = callerRingTimerId s"
  "inCallOrConnecting (snd (afterChimeMeeting env fb c e r m ch fm s)) = inCallOrConnecting s"
  "currentSide (snd (afterChimeMeeting env fb c e r m ch fm s)) = currentSide s"
  "elements (snd (afterChimeMeeting env fb c e r m ch fm s)) = elements s"
  "timers (snd (afterChimeMeeting env fb c e r m ch fm s)) = timers s"
  "nextTimerId (snd (afterChimeMeeting env fb c e r m ch fm s)) = nextTimerId s"
  by (simp_all add: afterChimeMeeting_def Let_def send_defs split: sum.splits)

lemma afterChimeMeeting_trace:
  "\<exists>es. trace (snd (afterChimeMeeting env fb c e r m ch fm s)) = trace s @ es
      \<and> sent_with CALL_ACCEPTED es = [] \<and> sent_with SELF_STOP_RING es = []
      \<and> sent_with CALL_DECLINED es = [] \<and> sent_with MEETING_PROBLEM es = []
      \<and> sent_with MEETING_READY es =
          [JObj [(''to'', if fb then js_or (callerId (invite s)) c else c),
                 (''meetingId'', m),
                 (''callerId'', c),
                 (''calleeId'', e),
                 (''callerRole'', callerRole (invite s)),
                 (''calleeRole'', r),
                 (''chimeMeetingId'', ch),
                 (''dbMeetingId'', m)]]
      \<and> (CALLEE_MANUAL_JOIN_ENABLED env \<longrightarrow> join_attempts es = [])"
  by (simp add: afterChimeMeeting_def Let_def send_defs flag_defs split: sum.splits)

lemma afterChimeMeeting_manual:
  "CALLEE_MANUAL_JOIN_ENABLED env \<Longrightarrow>
     fst (afterChimeMeeting env fb c e r m ch fm s) = Inr ()
   \<and> pendingCalleeJoin (snd (afterChimeMeeting env fb c e r m ch fm s)) =
       Some \<lparr>pj_meetingId = m, pj_calleeId = e, pj_calleeRole = r, pj_chimeId = ch,
             pj_callType = callType (invite s), pj_fullMeeting = fm\<rparr>"
  by (simp add: afterChimeMeeting_def Let_def send_defs)

lemma calleeFlowCatch_fields [simp]:
  "invite (calleeFlowCatch c e err s) = invite s"
  "calleeRingTimerId (calleeFlowCatch c e err s) = calleeRingTimerId s"
  "callerRingTimerId (calleeFlowCatch c e err s) = callerRingTimerId s"
  "inCallOrConnecting (calleeFlowCatch c e err s) = False"
  "pendingCalleeJoin (calleeFlowCatch c e err s) = pendingCalleeJoin s"
  "currentSide (calleeFlowCatch c e err s) = currentSide s"
  "elements (calleeFlowCatch c e err s) = elements s"
  "timers (calleeFlowCatch c e err s) = timers s"
  "nextTimerId (calleeFlowCatch c e err s) = nextTimerId s"
  "trace (calleeFlowCatch c e err s) =
     trace s @ [UIDispatch ''callee:terminated'' ''error'' (JObj [(''message'', error_message err)]),
                SocketSend MEETING_PROBLEM
                  (JObj [(''to'', c), (''meetingId'', JStr ''unknown''), (''callerId'', c),
                         (''calleeId'', e), (''message'', error_message err)])]"
  by (simp_all add: calleeFlowCatch_def Let_def send_defs)

lemma calleeMeetingFlow_fields:
  "invite (calleeMeetingFlow env fb c e r s) = invite s"
  "calleeRingTimerId (calleeMeetingFlow env fb c e r s) = calleeRingTimerId s"
  "callerRingTimerId (calleeMeetingFlow env fb c e r s) = callerRingTimerId s"
  "currentSide (calleeMeetingFlow env fb c e r s) = currentSide s"
  "elements (calleeMeetingFlow env fb c e r s) = elements s"
  "timers (calleeMeetingFlow env fb c e r s) = timers s"
  "nextTimerId (calleeMeetingFlow env fb c e r s) = nextTimerId s"
  by (simp_all add: calleeMeetingFlow_def Let_def split: sum.splits promise.splits)

lemma calleeMeetingFlow_flag:
  "inCallOrConnecting (calleeMeetingFlow env fb c e r s) \<Longrightarrow> inCallOrConnecting s"
  by (simp add: calleeMeetingFlow_def Let_def split: sum.splits promise.splits)

lemma calleeMeetingFlow_trace:
  "\<exists>es. trace (calleeMeetingFlow env fb c e r s) =
          trace s @ ApiCall ''createInstantMeeting'' (JObj [(''initiatorId'', e)]) # es
      \<and> sent_with CALL_ACCEPTED es = []
      \<and> sent_with SELF_STOP_RING es = []
      \<and> sent_with CALL_DECLINED es = []
      \<and> (CALLEE_MANUAL_JOIN_ENABLED env \<longrightarrow> join_attempts es = [])
      \<and> list_all (\<lambda>p. field p ''callerRole'' = callerRole (invite s)
                       \<and> field p ''to'' = (if fb then js_or (callerId (invite s)) c else c)
                       \<and> field p ''callerId'' = c \<and> field p ''calleeId'' = e)
            (sent_with MEETING_READY es)
      \<and> length (sent_with MEETING_PROBLEM es) \<le> 1"
proof -
  let ?s1 = "emits (snd (getMeetingID (dbReply env) e r)) s"
  have t1: "trace ?s1 = trace s @ [ApiCall ''createInstantMeeting'' (JObj [(''initiatorId'', e)])]"
    and i1: "invite ?s1 = invite s"
    by simp_all
  show ?thesis
  proof (cases "fst (getMeetingID (dbReply env) e r)")
    case (Inl err)
    then have "calleeMeetingFlow env fb c e r s = calleeFlowCatch c e err ?s1"
      by (simp add: calleeMeetingFlow_def Let_def)
    then show ?thesis
      by (simp add: flag_defs)
  next
    case (Inr mid)
    let ?first = "afterMeetingId env c e r mid ?s1"
    obtain es1 where e1: "trace (snd ?first) = trace ?s1 @ es1"
      "sent_with CALL_ACCEPTED es1 = []" "sent_with SELF_STOP_RING es1 = []"
      "sent_with CALL_DECLINED es1 = []" "sent_with MEETING_READY es1 = []"
      "sent_with MEETING_PROBLEM es1 = []" "join_attempts es1 = []"
      using afterMeetingId_trace [of env c e r mid ?s1] by blast
    have i2: "invite (snd ?first) = invite s" by simp
    show ?thesis
    proof (cases "fst ?first")
      case (Rejected err)
      with Inr have "calleeMeetingFlow env fb c e r s = calleeFlowCatch c e err (snd ?first)"
        by (simp add: calleeMeetingFlow_def Let_def)
      then show ?thesis using e1 by (simp add: flag_defs)
    next
      case Pending
      with Inr have "calleeMeetingFlow env fb c e r s = snd ?first"
        by (simp add: calleeMeetingFlow_def Let_def)
      then show ?thesis using e1 by simp
    next
      case (Resolved cd)
      let ?second = "afterChimeMeeting env fb c e r mid (fst cd) (snd cd) (snd ?first)"
      obtain es2 where e2: "trace (snd ?second) = trace (snd ?first) @ es2"
        "sent_with CALL_ACCEPTED es2 = []" "sent_with SELF_STOP_RING es2 = []"
        "sent_with CALL_DECLINED es2 = []" "sent_with MEETING_PROBLEM es2 = []"
        "sent_with MEETING_READY es2 =
          [JObj [(''to'', if fb then js_or (callerId (invite (snd ?first))) c else c),
                 (''meetingId'', mid),
                 (''callerId'', c),
                 (''calleeId'', e),
                 (''callerRole'', callerRole (invite (snd ?first))),
                 (''calleeRole'', r),
                 (''chimeMeetingId'', fst cd),
                 (''dbMeetingId'', mid)]]"
        "CALLEE_MANUAL_JOIN_ENABLED env \<longrightarrow> join_attempts es2 = []"
        using afterChimeMeeting_trace [of env fb c e r mid "fst cd" "snd cd" "snd ?first"] by blast
      show ?thesis
      proof (cases "fst ?second")
        case (Inl err)
        with Inr Resolved
        have "calleeMeetingFlow env fb c e r s = calleeFlowCatch c e err (snd ?second)"
          by (simp add: calleeMeetingFlow_def Let_def)
        then show ?thesis using e1 e2 by (simp add: flag_defs)
      next
        case (Inr u)
        with \<open>fst (getMeetingID (dbReply env) e r) = Inr mid\<close> Resolved
        have "calleeMeetingFlow env fb c e r s = snd ?second"
          by (simp add: calleeMeetingFlow_def Let_def)
        then show ?thesis using e1 e2 by (simp add: flag_defs)
      qed
    qed
  qed
qed

section \<open>The scenario evaluated\<close>

lemmas scenario_defs =
  bob_els_def initiate_from_alice_def start_call_to_carol_def accepted_by_carol_def
  declined_by_carol_def ready_from_carol_def accept_event_def cancelled_by_alice_def
  self_stop_for_bob_def timeout_without_ids_def declined_without_reason_def
  accepted_without_to_def

lemma bob_ringing_eq:
  "bob_ringing =
     \<lparr>invite = \<lparr>callerId = JStr ''alice'', calleeId = JStr ''bob'', callerRole = JStr ''host'',
                callType = JStr ''video'', callerData = JNull, calleeData = JNull\<rparr>,
      calleeRingTimerId = Some 1,
      callerRingTimerId = None,
      inCallOrConnecting = False,
      pendingCalleeJoin = None,
      currentSide = Some ''callee'',
      elements = bob_els,
      timers = [(1, CalleeRingTimeout)],
      nextTimerId = 2,
      trace = [DocEvent CALL_RINGING
                 (JObj [(''callerId'', JStr ''alice''), (''calleeId'', JStr ''bob''),
                        (''callerData'', JUndefined), (''calleeData'', JUndefined)]),
               UIDispatch ''callee:incomingVideoCall'' ''none''
                 (JObj [(''callerId'', JStr ''alice''), (''calleeId'', JStr ''bob''),
                        (''callerRole'', JStr ''host''),
                        (''callerData'', JUndefined), (''calleeData'', JUndefined)])]\<rparr>"
  by (simp add: bob_ringing_def handleSocketIncomingCall_def initiate_from_alice_def init_state_def
      missing_def js_or_def Let_def send_defs emit_def setTimeout_def clearCalleeRingTimer_def)

lemma bob_calling_eq:
  "bob_calling =
     \<lparr>invite = \<lparr>callerId = JNull, calleeId = JNull, callerRole = JNull,
                callType = JNull, callerData = JNull, calleeData = JNull\<rparr>,
      calleeRingTimerId = None,
      callerRingTimerId = Some 1,
      inCallOrConnecting = False,
      pendingCalleeJoin = None,
      currentSide = Some ''caller'',
      elements = bob_els,
      timers = [(1, CallerRingTimeout (JStr ''bob'') (JStr ''carol''))],
      nextTimerId = 2,
      trace = [DocEvent CALL_INITIATE
                 (JObj [(''callerId'', JStr ''bob''), (''calleeId'', JStr ''carol''),
                        (''type'', JStr TYPE_INSTANT), (''role'', JStr ''host'')]),
               SocketSend CALL_INITIATE
                 (JObj [(''to'', JStr ''carol''), (''callType'', JStr TYPE_INSTANT),
                        (''callerId'', JStr ''bob''), (''calleeId'', JStr ''carol''),
                        (''role'', JStr ''host'')]),
               UIDispatch ''caller:callWaiting'' ''none''
                 (JObj [(''callerId'', JStr ''bob''), (''calleeId'', JStr ''carol''),
                        (''role'', JStr ''host'')])]\<rparr>"
  by (simp add: bob_calling_def handleAppStartCall_def start_call_to_carol_def init_state_def
      event_detail_def missing_def Let_def send_defs emit_def setTimeout_def clearCallerRingTimer_def)

lemma bob_accepted_fields:
  "inCallOrConnecting bob_accepted"
  "callerRingTimerId bob_accepted = None"
  "calleeRingTimerId bob_accepted = None"
  "timers bob_accepted = []"
  "currentSide bob_accepted = Some ''caller''"
  "callType (invite bob_accepted) = JNull"
  by (simp_all add: bob_accepted_def handleSocketAccepted_def accepted_by_carol_def missing_def
      Let_def send_defs bob_calling_eq)

lemma bob_calling_and_ringing_fields:
  "callerRingTimerId bob_calling_and_ringing = Some 1"
  "calleeRingTimerId bob_calling_and_ringing = Some 2"
  "timers bob_calling_and_ringing =
     [(1, CallerRingTimeout (JStr ''bob'') (JStr ''carol'')), (2, CalleeRingTimeout)]"
  "\<not> inCallOrConnecting bob_calling_and_ringing"
  by (simp_all add: bob_calling_and_ringing_def handleSocketIncomingCall_def initiate_from_alice_def
      missing_def js_or_def Let_def send_defs setTimeout_def clearCalleeRingTimer_def bob_calling_eq)

lemma bob_accepted_while_ringing_fields:
  "inCallOrConnecting bob_accepted_while_ringing"
  "callerRingTimerId bob_accepted_while_ringing = None"
  "calleeRingTimerId bob_accepted_while_ringing = Some 2"
  "timers bob_accepted_while_ringing = [(2, CalleeRingTimeout)]"
  by (simp_all add: bob_accepted_while_ringing_def handleSocketAccepted_def accepted_by_carol_def
      missing_def Let_def send_defs bob_calling_and_ringing_fields)

lemma passes_checks_samples:
  "passes_checks Initiate initiate_from_alice"
  "passes_checks Declined declined_by_carol"
  "passes_checks Accepted accepted_by_carol"
  "passes_checks MeetingReady ready_from_carol"
  by (simp_all add: passes_checks_def scenario_defs missing_def)

section \<open>The busy guard\<close>

text \<open>
  C1, as the code has it. The handler tests the guard only after its checks of the body.
  While the busy guard \<open>_inCallOrConnecting\<close> is set, every inbound Initiate that gets
  past these checks (a body of the instant call type with \<open>callerId\<close>, \<open>calleeId\<close>
  and \<open>role\<close>) makes the handler send exactly one Declined with reason
  \<open>in_another_call\<close> to the inviter, and leaves the stored invite, both ring-timer
  handles, \<open>_currentSide\<close>, the guard itself, the pending join and the table of armed
  timeouts as they were: no ring timer is armed.
\<close>

theorem busy_guard_auto_decline:
  assumes busy: "inCallOrConnecting s"
    and ok: "passes_checks Initiate body"
  shows "sent_with CALL_DECLINED (new_effects s (handleSocketIncomingCall body s)) =
           [JObj [(''to'', field body ''callerId''),
                  (''callerId'', field body ''callerId''),
                  (''calleeId'', field body ''calleeId''),
                  (''reason'', JStr ''in_another_call'')]]
       \<and> invite (handleSocketIncomingCall body s) = invite s
       \<and> calleeRingTimerId (handleSocketIncomingCall body s) = calleeRingTimerId s
       \<and> callerRingTimerId (handleSocketIncomingCall body s) = callerRingTimerId s
       \<and> currentSide (handleSocketIncomingCall body s) = currentSide s
       \<and> inCallOrConnecting (handleSocketIncomingCall body s) = inCallOrConnecting s
       \<and> pendingCalleeJoin (handleSocketIncomingCall body s) = pendingCalleeJoin s
       \<and> timers (handleSocketIncomingCall body s) = timers s
       \<and> nextTimerId (handleSocketIncomingCall body s) = nextTimerId s"
proof -
  from ok have v: "truthy body" "field body ''callType'' = JStr TYPE_INSTANT"
    "\<not> missing (field body ''callerId'')" "\<not> missing (field body ''calleeId'')"
    "\<not> missing (field body ''role'')"
    by (simp_all add: passes_checks_def)
  have step: "handleSocketIncomingCall body s =
      s\<lparr>trace := trace s @
         [SocketSend CALL_DECLINED
            (JObj [(''to'', field body ''callerId''),
                   (''callerId'', field body ''callerId''),
                   (''calleeId'', field body ''calleeId''),
                   (''reason'', JStr ''in_another_call'')]),
          UIDispatch ''callee:terminated'' ''auto-declined''
            (JObj [(''callerId'', field body ''callerId''),
                   (''calleeId'', field body ''calleeId''),
                   (''reason'', JStr ''in_another_call'')])]\<rparr>"
    using busy v by (simp add: handleSocketIncomingCall_def send_defs emit_def)
  show ?thesis
    by (simp add: step new_effects_def)
qed

theorem busy_guard_auto_decline_witness:
  "inCallOrConnecting bob_accepted \<and> passes_checks Initiate initiate_from_alice
   \<and> (sent_with CALL_DECLINED (new_effects bob_accepted
          (handleSocketIncomingCall initiate_from_alice bob_accepted)) =
         [JObj [(''to'', field initiate_from_alice ''callerId''),
                (''callerId'', field initiate_from_alice ''callerId''),
                (''calleeId'', field initiate_from_alice ''calleeId''),
                (''reason'', JStr ''in_another_call'')]]
     \<and> invite (handleSocketIncomingCall initiate_from_alice bob_accepted) = invite bob_accepted
     \<and> calleeRingTimerId (handleSocketIncomingCall initiate_from_alice bob_accepted) =
         calleeRingTimerId bob_accepted
     \<and> callerRingTimerId (handleSocketIncomingCall initiate_from_alice bob_accepted) =
         callerRingTimerId bob_accepted
     \<and> currentSide (handleSocketIncomingCall initiate_from_alice bob_accepted) =
         currentSide bob_accepted
     \<and> inCallOrConnecting (handleSocketIncomingCall initiate_from_alice bob_accepted) =
         inCallOrConnecting bob_accepted
     \<and> pendingCalleeJoin (handleSocketIncomingCall initiate_from_alice bob_accepted) =
         pendingCalleeJoin bob_accepted
     \<and> timers (handleSocketIncomingCall initiate_from_alice bob_accepted) = timers bob_accepted
     \<and> nextTimerId (handleSocketIncomingCall initiate_from_alice bob_accepted) =
         nextTimerId bob_accepted)"
proof -
  have busy: "inCallOrConnecting bob_accepted"
    by (rule bob_accepted_fields)
  have ok: "passes_checks Initiate initiate_from_alice"
    by (rule passes_checks_samples)
  show ?thesis
    by (rule conjI [OF busy conjI [OF ok busy_guard_auto_decline [OF busy ok]]])
qed

text \<open>
  The claim as stated, for every inbound Initiate, fails. While Bob's guard is set, an
  invitation to a scheduled call and one with an empty \<open>role\<close>, both with a string in
  every field of the Initiate schema, are dropped by the checks that precede the guard:
  the handler returns with the state and the trace as they were, so no Declined is sent.
\<close>

theorem busy_guard_counterexample:
  "inCallOrConnecting bob_accepted
   \<and> conforms Initiate scheduled_initiate_from_alice
   \<and> handleSocketIncomingCall scheduled_initiate_from_alice bob_accepted = bob_accepted
   \<and> sent_with CALL_DECLINED
        (new_effects bob_accepted
           (handleSocketIncomingCall scheduled_initiate_from_alice bob_accepted)) = []
   \<and> conforms Initiate initiate_with_empty_role
   \<and> handleSocketIncomingCall initiate_with_empty_role bob_accepted = bob_accepted
   \<and> sent_with CALL_DECLINED
        (new_effects bob_accepted
           (handleSocketIncomingCall initiate_with_empty_role bob_accepted)) = []"
proof -
  have scheduled: "handleSocketIncomingCall scheduled_initiate_from_alice s = s" for s
    by (simp add: handleSocketIncomingCall_def scheduled_initiate_from_alice_def
        TYPE_INSTANT_def TYPE_SCHEDULED_def)
  have empty_role: "handleSocketIncomingCall initiate_with_empty_role s = s" for s
    by (simp add: handleSocketIncomingCall_def initiate_with_empty_role_def missing_def)
  have schema: "conforms Initiate scheduled_initiate_from_alice"
    "conforms Initiate initiate_with_empty_role"
    by (simp_all add: conforms_def scheduled_initiate_from_alice_def initiate_with_empty_role_def)
  show ?thesis
    by (simp add: scheduled empty_role schema new_effects_def bob_accepted_fields)
qed

section \<open>Ring timeout on the callee's side\<close>

text \<open>
  C2. The claim: when the callee's 25-second ring timer fires, the session is terminated
  for both sides, the peer is notified and ringing stops. In the code the closure armed by
  \<open>handleSocketIncomingCall\<close> has an empty body: after Alice's Initiate the timeout with
  handle 1 is pending on Bob's page, and firing it only removes it from the browser's
  table. No Timeout message is sent, no UI state is dispatched, and the handle stays in
  \<open>_calleeRingTimerId\<close>. The caller-side closure, fired on the page of a caller, does
  send Timeout and SelfStopRing and dispatches \<open>caller:terminated\<close>.
\<close>

theorem callee_ring_timeout_does_nothing:
  "calleeRingTimerId bob_ringing = Some 1
   \<and> timers bob_ringing = [(1, CalleeRingTimeout)]
   \<and> fireTimer 1 bob_ringing = bob_ringing\<lparr>timers := []\<rparr>
   \<and> sent_with CALL_TIMEOUT (new_effects bob_ringing (fireTimer 1 bob_ringing)) = []
   \<and> ui_dispatches (new_effects bob_ringing (fireTimer 1 bob_ringing)) = []
   \<and> calleeRingTimerId (fireTimer 1 bob_ringing) = Some 1
   \<and> sent_with CALL_TIMEOUT (new_effects bob_calling (fireTimer 1 bob_calling)) =
       [JObj [(''to'', JStr ''carol''), (''callerId'', JStr ''bob''), (''calleeId'', JStr ''carol'')]]
   \<and> ui_dispatches (new_effects bob_calling (fireTimer 1 bob_calling)) =
       [(''caller:terminated'', ''timeout'')]"
proof -
  have callee: "fireTimer 1 bob_ringing = bob_ringing\<lparr>timers := []\<rparr>"
    by (simp add: fireTimer_def bob_ringing_eq)
  have caller: "trace (fireTimer 1 bob_calling) = trace bob_calling @
      [SocketSend CALL_TIMEOUT
         (JObj [(''to'', JStr ''carol''), (''callerId'', JStr ''bob''), (''calleeId'', JStr ''carol'')]),
       SocketSend SELF_STOP_RING (JObj [(''to'', JStr ''bob''), (''calleeId'', JStr ''bob'')]),
       UIDispatch ''caller:terminated'' ''timeout''
         (JObj [(''callerId'', JStr ''bob''), (''calleeId'', JStr ''carol'')])]"
    by (simp add: fireTimer_def bob_calling_eq Let_def send_defs emit_def)
  show ?thesis
    unfolding callee new_effects_def caller
    by (simp add: bob_ringing_eq flag_defs)
qed

section \<open>Remote Timeout, Cancelled and Declined\<close>

text \<open>
  C3, as the code has it. A remote Timeout, whatever its body, clears both ring timers
  (both handles are \<open>null\<close> afterwards and their timeouts are cancelled), resets
  \<open>_inCallOrConnecting\<close> and dispatches \<open>caller:terminated / timeout\<close>. A remote
  Cancelled, whatever its body, clears both ring timers and dispatches
  \<open>callee:terminated / cancelled\<close>. A remote Declined that passes the handler's checks
  clears the caller-side ring timer only, leaves the callee-side handle as it was, and
  dispatches \<open>caller:declined\<close>.
\<close>

theorem remote_termination_effects:
  assumes "passes_checks Declined db"
  shows
  "(callerRingTimerId (handleSocketTimeout tb s) = None
      \<and> calleeRingTimerId (handleSocketTimeout tb s) = None
      \<and> timers (handleSocketTimeout tb s) =
          filter (\<lambda>p. Some (fst p) \<noteq> callerRingTimerId s \<and> Some (fst p) \<noteq> calleeRingTimerId s) (timers s)
      \<and> \<not> inCallOrConnecting (handleSocketTimeout tb s)
      \<and> ui_dispatches (new_effects s (handleSocketTimeout tb s)) = [(''caller:terminated'', ''timeout'')])
   \<and> (callerRingTimerId (handleSocketCancelled cb s) = None
      \<and> calleeRingTimerId (handleSocketCancelled cb s) = None
      \<and> timers (handleSocketCancelled cb s) =
          filter (\<lambda>p. Some (fst p) \<noteq> callerRingTimerId s \<and> Some (fst p) \<noteq> calleeRingTimerId s) (timers s)
      \<and> ui_dispatches (new_effects s (handleSocketCancelled cb s)) = [(''callee:terminated'', ''cancelled'')])
   \<and> (callerRingTimerId (handleSocketDeclined db s) = None
      \<and> calleeRingTimerId (handleSocketDeclined db s) = calleeRingTimerId s
      \<and> timers (handleSocketDeclined db s) =
          filter (\<lambda>p. Some (fst p) \<noteq> callerRingTimerId s) (timers s)
      \<and> ui_dispatches (new_effects s (handleSocketDeclined db s)) = [(''caller:declined'', ''none'')])"
proof -
  have t: "callerRingTimerId (handleSocketTimeout tb s) = None
      \<and> calleeRingTimerId (handleSocketTimeout tb s) = None
      \<and> timers (handleSocketTimeout tb s) =
          filter (\<lambda>p. Some (fst p) \<noteq> callerRingTimerId s \<and> Some (fst p) \<noteq> calleeRingTimerId s) (timers s)
      \<and> \<not> inCallOrConnecting (handleSocketTimeout tb s)
      \<and> ui_dispatches (new_effects s (handleSocketTimeout tb s)) = [(''caller:terminated'', ''timeout'')]"
    by (simp add: handleSocketTimeout_def Let_def send_defs new_effects_def)
  have c: "callerRingTimerId (handleSocketCancelled cb s) = None
      \<and> calleeRingTimerId (handleSocketCancelled cb s) = None
      \<and> timers (handleSocketCancelled cb s) =
          filter (\<lambda>p. Some (fst p) \<noteq> callerRingTimerId s \<and> Some (fst p) \<noteq> calleeRingTimerId s) (timers s)
      \<and> ui_dispatches (new_effects s (handleSocketCancelled cb s)) = [(''callee:terminated'', ''cancelled'')]"
    by (simp add: handleSocketCancelled_def Let_def send_defs new_effects_def)
  have d: "callerRingTimerId (handleSocketDeclined db s) = None
      \<and> calleeRingTimerId (handleSocketDeclined db s) = calleeRingTimerId s
      \<and> timers (handleSocketDeclined db s) =
          filter (\<lambda>p. Some (fst p) \<noteq> callerRingTimerId s) (timers s)
      \<and> ui_dispatches (new_effects s (handleSocketDeclined db s)) = [(''caller:declined'', ''none'')]"
    using assms
    by (simp add: passes_checks_def handleSocketDeclined_def Let_def send_defs new_effects_def)
  show ?thesis by (rule conjI [OF t conjI [OF c d]])
qed

theorem remote_termination_effects_witness:
  "passes_checks Declined declined_by_carol
   \<and> callerRingTimerId (handleSocketTimeout timeout_without_ids bob_calling_and_ringing) = None
   \<and> calleeRingTimerId (handleSocketTimeout timeout_without_ids bob_calling_and_ringing) = None
   \<and> \<not> inCallOrConnecting (handleSocketTimeout timeout_without_ids bob_calling_and_ringing)
   \<and> callerRingTimerId (handleSocketCancelled cancelled_by_alice bob_calling_and_ringing) = None
   \<and> calleeRingTimerId (handleSocketCancelled cancelled_by_alice bob_calling_and_ringing) = None
   \<and> callerRingTimerId (handleSocketDeclined declined_by_carol bob_calling_and_ringing) = None
   \<and> calleeRingTimerId (handleSocketDeclined declined_by_carol bob_calling_and_ringing) = Some 2"
  using remote_termination_effects [OF passes_checks_samples(2),
      where s = bob_calling_and_ringing and tb = timeout_without_ids and cb = cancelled_by_alice]
  by (simp add: passes_checks_samples(2) bob_calling_and_ringing_fields)

text \<open>
  The claim as stated fails. Bob is calling Carol while Alice's invitation rings on his
  page (both timers armed): Carol's Declined leaves the callee-side timer armed. And once
  Carol has accepted (guard set), a Cancelled from Alice leaves the guard set, and so
  does a Declined.
\<close>

theorem remote_termination_counterexample:
  "passes_checks Declined declined_by_carol
   \<and> calleeRingTimerId bob_calling_and_ringing = Some 2
   \<and> calleeRingTimerId (handleSocketDeclined declined_by_carol bob_calling_and_ringing) = Some 2
   \<and> timers (handleSocketDeclined declined_by_carol bob_calling_and_ringing) = [(2, CalleeRingTimeout)]
   \<and> inCallOrConnecting bob_accepted_while_ringing
   \<and> inCallOrConnecting (handleSocketCancelled cancelled_by_alice bob_accepted_while_ringing)
   \<and> inCallOrConnecting (handleSocketDeclined declined_by_carol bob_accepted_while_ringing)"
proof -
  have d: "calleeRingTimerId (handleSocketDeclined declined_by_carol bob_calling_and_ringing) = Some 2
      \<and> timers (handleSocketDeclined declined_by_carol bob_calling_and_ringing) = [(2, CalleeRingTimeout)]"
    by (simp add: handleSocketDeclined_def declined_by_carol_def missing_def Let_def send_defs
        bob_calling_and_ringing_fields)
  have c: "inCallOrConnecting (handleSocketCancelled cancelled_by_alice bob_accepted_while_ringing)"
    by (simp add: handleSocketCancelled_def Let_def send_defs bob_accepted_while_ringing_fields)
  have g: "inCallOrConnecting (handleSocketDeclined declined_by_carol bob_accepted_while_ringing)"
    by (simp add: handleSocketDeclined_def declined_by_carol_def missing_def Let_def send_defs
        clearCallerRingTimer_def bob_accepted_while_ringing_fields)
  show ?thesis
    using d c g
    by (simp add: passes_checks_samples bob_calling_and_ringing_fields
        bob_accepted_while_ringing_fields)
qed

section \<open>Validation of inbound messages\<close>

lemma incoming_dropped:
  assumes "\<not> passes_checks Initiate body"
  shows "handleSocketIncomingCall body s = s"
proof -
  from assms have "\<not> truthy body \<or> field body ''callType'' \<noteq> JStr TYPE_INSTANT
      \<or> missing (field body ''callerId'') \<or> missing (field body ''calleeId'')
      \<or> missing (field body ''role'')"
    by (auto simp: passes_checks_def)
  then show ?thesis
    by (elim disjE) (simp_all add: handleSocketIncomingCall_def)
qed

lemma accepted_dropped:
  assumes "\<not> passes_checks Accepted body"
  shows "handleSocketAccepted body s = s"
proof -
  from assms have "\<not> truthy body \<or> missing (field body ''callerId'')
      \<or> missing (field body ''calleeId'')"
    by (auto simp: passes_checks_def)
  then show ?thesis
    by (elim disjE) (simp_all add: handleSocketAccepted_def)
qed

lemma declined_dropped:
  assumes "\<not> passes_checks Declined body"
  shows "handleSocketDeclined body s = s"
proof -
  from assms have "\<not> truthy body \<or> missing (field body ''callerId'')
      \<or> missing (field body ''calleeId'') \<or> missing (field body ''reason'')"
    by (auto simp: passes_checks_def)
  then show ?thesis
    by (elim disjE) (simp_all add: handleSocketDeclined_def)
qed

lemma meeting_ready_dropped:
  assumes "\<not> passes_checks MeetingReady body"
  shows "handleSocketMeetingReady env body s = s"
proof -
  from assms have "\<not> truthy body \<or> missing (field body ''meetingId'')
      \<or> missing (field body ''callerId'') \<or> missing (field body ''calleeId'')
      \<or> missing (field body ''callerRole'') \<or> missing (field body ''calleeRole'')"
    by (auto simp: passes_checks_def)
  then show ?thesis
    by (elim disjE) (simp_all add: handleSocketMeetingReady_def)
qed

text \<open>
  C4, as the code has it. The handlers of Initiate, Accepted, Declined and MeetingReady
  test the body and their required fields before anything else, and a message that fails
  the test is dropped: the whole state, trace included, is as before. The handlers of
  Timeout, Cancelled, SelfStopRing and MeetingProblem test nothing: what they do to the
  static fields and the timers does not depend on the body at all.
\<close>

theorem failed_checks_drop_message:
  assumes "validating kind" and "\<not> passes_checks kind body"
    and "\<not> validating kind'"
  shows "handleSocket env kind body s = s
       \<and> (handleSocket env kind' body1 s)\<lparr>trace := []\<rparr> = (handleSocket env kind' body2 s)\<lparr>trace := []\<rparr>"
proof -
  have dropped: "handleSocket env kind body s = s"
    using assms(1,2)
    by (cases kind)
      (simp_all add: incoming_dropped accepted_dropped declined_dropped meeting_ready_dropped)
  have blind: "(handleSocket env kind' body1 s)\<lparr>trace := []\<rparr> =
      (handleSocket env kind' body2 s)\<lparr>trace := []\<rparr>"
    using assms(3)
    by (cases kind')
      (simp_all add: handleSocketCancelled_def handleSocketTimeout_def
        handleSocketSelfStopRinging_def handleSocketMeetingProblem_def Let_def send_defs emit_def)
  show ?thesis by (rule conjI [OF dropped blind])
qed

theorem failed_checks_drop_message_witness:
  "validating Declined \<and> \<not> passes_checks Declined declined_without_reason
   \<and> \<not> validating Timeout
   \<and> handleSocket offline_env Declined declined_without_reason bob_calling_and_ringing =
       bob_calling_and_ringing
   \<and> (handleSocket offline_env Timeout timeout_without_ids bob_calling_and_ringing)\<lparr>trace := []\<rparr> =
       (handleSocket offline_env Timeout JUndefined bob_calling_and_ringing)\<lparr>trace := []\<rparr>"
proof -
  have v: "validating Declined" by simp
  have f: "\<not> passes_checks Declined declined_without_reason"
    by (simp add: passes_checks_def declined_without_reason_def missing_def)
  have n: "\<not> validating Timeout" by simp
  show ?thesis
    using v f n failed_checks_drop_message [OF v f n] by blast
qed

text \<open>
  The claim as stated fails. A Timeout message that lacks the \<open>callerId\<close> and
  \<open>calleeId\<close> its schema requires is not dropped: on Bob's page, with both ring timers
  armed, it clears both. And the handlers that do test never look at \<open>to\<close>: an Accepted
  without it is processed, clearing the caller's ring timer and setting the guard.
\<close>

theorem unvalidated_timeout_counterexample:
  "\<not> conforms Timeout timeout_without_ids
   \<and> callerRingTimerId bob_calling_and_ringing = Some 1
   \<and> calleeRingTimerId bob_calling_and_ringing = Some 2
   \<and> callerRingTimerId (handleSocket offline_env Timeout timeout_without_ids bob_calling_and_ringing) = None
   \<and> calleeRingTimerId (handleSocket offline_env Timeout timeout_without_ids bob_calling_and_ringing) = None
   \<and> timers (handleSocket offline_env Timeout timeout_without_ids bob_calling_and_ringing) = []
   \<and> \<not> conforms Accepted accepted_without_to
   \<and> \<not> inCallOrConnecting bob_calling
   \<and> inCallOrConnecting (handleSocket offline_env Accepted accepted_without_to bob_calling)
   \<and> callerRingTimerId (handleSocket offline_env Accepted accepted_without_to bob_calling) = None"
proof -
  have t: "\<not> conforms Timeout timeout_without_ids
      \<and> callerRingTimerId (handleSocket offline_env Timeout timeout_without_ids bob_calling_and_ringing) = None
      \<and> calleeRingTimerId (handleSocket offline_env Timeout timeout_without_ids bob_calling_and_ringing) = None
      \<and> timers (handleSocket offline_env Timeout timeout_without_ids bob_calling_and_ringing) = []"
    by (simp add: conforms_def timeout_without_ids_def bob_calling_and_ringing_fields
        handleSocketTimeout_def Let_def send_defs)
  have a: "\<not> conforms Accepted accepted_without_to
      \<and> \<not> inCallOrConnecting bob_calling
      \<and> inCallOrConnecting (handleSocket offline_env Accepted accepted_without_to bob_calling)
      \<and> callerRingTimerId (handleSocket offline_env Accepted accepted_without_to bob_calling) = None"
    by (simp add: conforms_def accepted_without_to_def handleSocketAccepted_def missing_def
        Let_def send_defs bob_calling_eq)
  show ?thesis
    using t a by (simp add: bob_calling_and_ringing_fields)
qed

section \<open>SelfStopRing\<close>

text \<open>
  C6, as the code has it. A remote SelfStopRing, whatever its body and whatever the state,
  clears both ring timers: both handles are \<open>null\<close> afterwards and both timeouts are
  cancelled. Nothing else changes: the trace (no message, no UI state), the invite, the
  guard, the side and the pending join stay as they were, so the handler is not terminal,
  and running it again changes nothing.
\<close>

theorem self_stop_ring_clears_both_timers:
  "callerRingTimerId (handleSocketSelfStopRinging body s) = None
   \<and> calleeRingTimerId (handleSocketSelfStopRinging body s) = None
   \<and> timers (handleSocketSelfStopRinging body s) =
       filter (\<lambda>p. Some (fst p) \<noteq> callerRingTimerId s \<and> Some (fst p) \<noteq> calleeRingTimerId s) (timers s)
   \<and> trace (handleSocketSelfStopRinging body s) = trace s
   \<and> invite (handleSocketSelfStopRinging body s) = invite s
   \<and> inCallOrConnecting (handleSocketSelfStopRinging body s) = inCallOrConnecting s
   \<and> currentSide (handleSocketSelfStopRinging body s) = currentSide s
   \<and> pendingCalleeJoin (handleSocketSelfStopRinging body s) = pendingCalleeJoin s
   \<and> handleSocketSelfStopRinging body' (handleSocketSelfStopRinging body s) =
       handleSocketSelfStopRinging body s"
  by (simp add: handleSocketSelfStopRinging_def clearCalleeRingTimer_def clearCallerRingTimer_def
      clearTimeout_def split: option.splits)

text \<open>
  The claim as stated fails: with Bob calling Carol and Alice's invitation ringing, a
  SelfStopRing clears the callee-side timer as well.
\<close>

theorem self_stop_ring_counterexample:
  "callerRingTimerId bob_calling_and_ringing = Some 1
   \<and> calleeRingTimerId bob_calling_and_ringing = Some 2
   \<and> calleeRingTimerId (handleSocketSelfStopRinging self_stop_for_bob bob_calling_and_ringing) = None
   \<and> timers (handleSocketSelfStopRinging self_stop_for_bob bob_calling_and_ringing) = []"
  by (simp add: handleSocketSelfStopRinging_def bob_calling_and_ringing_fields)

section \<open>The accept handlers\<close>

lemma handleAcceptClick_sync_Some:
  assumes "handleAcceptClick_sync s = Some s1"
    and "el_targetUserId (elements s) = Some target"
    and "el_currentUserId (elements s) = Some current"
  shows "trace s1 = trace s @
      [UIDispatch ''callee:callAccepted'' ''none''
         (JObj [(''callerId'', target), (''calleeId'', current),
                (''role'', the (el_role (elements s)))]),
       SocketSend SELF_STOP_RING (JObj [(''to'', current), (''calleeId'', current)]),
       SocketSend CALL_ACCEPTED
         (JObj [(''to'', target), (''callerId'', target), (''calleeId'', current)]),
       DocEvent CALL_ACCEPTED (JObj [(''callerId'', target), (''calleeId'', current)]),
       SocketSend MEETING_STATUS
         (JObj [(''to'', target), (''status'', JStr ''creating_db''),
                (''message'', JStr ''Creating meeting in database...'')])]"
    and "invite s1 = invite s"
    and "callerRole (invite s) \<noteq> JNull"
    and "calleeRingTimerId s1 = None"
    and "inCallOrConnecting s1"
  using assms
  by (auto simp: handleAcceptClick_sync_def Let_def send_defs split: if_splits)

lemma handleAppAcceptCall_sync_Some:
  assumes "handleAppAcceptCall_sync ev s = Some s1"
  shows "s1 = s\<lparr>currentSide := Some ''callee'',
      trace := trace s @
      [UIDispatch ''callee:callAccepted'' ''none''
         (JObj [(''callerId'', field (event_detail ev) ''callerId''),
                (''calleeId'', field (event_detail ev) ''calleeId''),
                (''role'', field (event_detail ev) ''role'')]),
       SocketSend SELF_STOP_RING
         (JObj [(''to'', field (event_detail ev) ''calleeId''),
                (''calleeId'', field (event_detail ev) ''calleeId'')]),
       SocketSend CALL_ACCEPTED
         (JObj [(''to'', field (event_detail ev) ''callerId''),
                (''callerId'', field (event_detail ev) ''callerId''),
                (''calleeId'', field (event_detail ev) ''calleeId'')]),
       DocEvent CALL_ACCEPTED
         (JObj [(''callerId'', field (event_detail ev) ''callerId''),
                (''calleeId'', field (event_detail ev) ''calleeId'')]),
       SocketSend MEETING_STATUS
         (JObj [(''to'', field (event_detail ev) ''callerId''), (''status'', JStr ''creating_db''),
                (''message'', JStr ''Creating meeting in database...'')])]\<rparr>"
    and "callerRole (invite s) \<noteq> JNull"
  using assms
  by (auto simp: handleAppAcceptCall_sync_def Let_def send_defs emit_def split: if_splits)

lemma handleAcceptClick_sends:
  assumes "handleAcceptClick_sync s = Some s1"
    and "el_targetUserId (elements s) = Some target"
    and "el_currentUserId (elements s) = Some current"
  shows "sent_with CALL_ACCEPTED (new_effects s (handleAcceptClick env s)) =
       [JObj [(''to'', target), (''callerId'', target), (''calleeId'', current)]]
     \<and> list_all (\<lambda>p. field p ''callerRole'' = callerRole (invite s)
                      \<and> field p ''to'' = js_or (callerId (invite s)) target
                      \<and> field p ''callerId'' = target \<and> field p ''calleeId'' = current)
           (sent_with MEETING_READY (new_effects s (handleAcceptClick env s)))"
proof -
  note b = handleAcceptClick_sync_Some [OF assms]
  have hb: "handleAcceptClick env s =
      calleeMeetingFlow env True target current (the (el_role (elements s))) s1"
    using assms by (simp add: handleAcceptClick_def)
  obtain es where es: "trace (calleeMeetingFlow env True target current (the (el_role (elements s))) s1) =
        trace s1 @ ApiCall ''createInstantMeeting'' (JObj [(''initiatorId'', current)]) # es"
      "sent_with CALL_ACCEPTED es = []"
      "list_all (\<lambda>p. field p ''callerRole'' = callerRole (invite s1)
                      \<and> field p ''to'' = (if True then js_or (callerId (invite s1)) target else target)
                      \<and> field p ''callerId'' = target \<and> field p ''calleeId'' = current)
           (sent_with MEETING_READY es)"
    using calleeMeetingFlow_trace [of env True target current "the (el_role (elements s))" s1]
    by blast
  show ?thesis
    using es(2,3) by (simp add: hb es(1) b(1,2) new_effects_def flag_defs)
qed

lemma handleAppAcceptCall_sends:
  assumes "handleAppAcceptCall_sync ev s = Some s1"
  shows "sent_with CALL_ACCEPTED (new_effects s (handleAppAcceptCall env ev s)) =
         [JObj [(''to'', field (event_detail ev) ''callerId''),
                (''callerId'', field (event_detail ev) ''callerId''),
                (''calleeId'', field (event_detail ev) ''calleeId'')]]
     \<and> list_all (\<lambda>p. field p ''callerRole'' = callerRole (invite s)
                      \<and> field p ''to'' = field (event_detail ev) ''callerId''
                      \<and> field p ''callerId'' = field (event_detail ev) ''callerId''
                      \<and> field p ''calleeId'' = field (event_detail ev) ''calleeId'')
           (sent_with MEETING_READY (new_effects s (handleAppAcceptCall env ev s)))"
proof -
  note a = handleAppAcceptCall_sync_Some [OF assms]
  let ?c = "field (event_detail ev) ''callerId''"
  let ?e = "field (event_detail ev) ''calleeId''"
  let ?r = "field (event_detail ev) ''role''"
  have ha: "handleAppAcceptCall env ev s = calleeMeetingFlow env False ?c ?e ?r s1"
    using assms by (simp add: handleAppAcceptCall_def)
  have t2: "trace s1 = trace s @
      [UIDispatch ''callee:callAccepted'' ''none''
         (JObj [(''callerId'', ?c), (''calleeId'', ?e), (''role'', ?r)]),
       SocketSend SELF_STOP_RING (JObj [(''to'', ?e), (''calleeId'', ?e)]),
       SocketSend CALL_ACCEPTED (JObj [(''to'', ?c), (''callerId'', ?c), (''calleeId'', ?e)]),
       DocEvent CALL_ACCEPTED (JObj [(''callerId'', ?c), (''calleeId'', ?e)]),
       SocketSend MEETING_STATUS
         (JObj [(''to'', ?c), (''status'', JStr ''creating_db''),
                (''message'', JStr ''Creating meeting in database...'')])]"
    and i2: "invite s1 = invite s"
    by (subst a(1), simp)+
  obtain es' where es': "trace (calleeMeetingFlow env False ?c ?e ?r s1) =
        trace s1 @ ApiCall ''createInstantMeeting'' (JObj [(''initiatorId'', ?e)]) # es'"
      "sent_with CALL_ACCEPTED es' = []"
      "list_all (\<lambda>p. field p ''callerRole'' = callerRole (invite s1)
                      \<and> field p ''to'' = (if False then js_or (callerId (invite s1)) ?c else ?c)
                      \<and> field p ''callerId'' = ?c \<and> field p ''calleeId'' = ?e)
           (sent_with MEETING_READY es')"
    using calleeMeetingFlow_trace [of env False ?c ?e ?r s1] by blast
  show ?thesis
    using es'(2,3) by (simp add: ha es'(1) t2 i2 new_effects_def flag_defs)
qed

lemma scenario_accepts:
  "handleAcceptClick_sync bob_ringing = Some (the (handleAcceptClick_sync bob_ringing))"
  "handleAppAcceptCall_sync accept_event bob_ringing =
     Some (the (handleAppAcceptCall_sync accept_event bob_ringing))"
  "el_targetUserId (elements bob_ringing) = Some (JStr ''mallory'')"
  "el_currentUserId (elements bob_ringing) = Some (JStr ''bob'')"
  by (simp_all add: handleAcceptClick_sync_def handleAppAcceptCall_sync_def accept_event_def
      event_detail_def bob_ringing_eq bob_els_def missing_def Let_def)

text \<open>
  C7, as the code has it. On the button path the \<open>callerId\<close> and \<open>calleeId\<close> of the
  outbound Accepted, and of every MeetingReady of the chain, are the values of the local
  inputs \<open>targetUserId\<close> and \<open>currentUserId\<close>; on the event path they are the values of
  the event's detail. What comes from the stored invitation is the \<open>callerRole\<close> of
  MeetingReady (an accept without a stored role is refused) and, on the button path, the
  addressee of MeetingReady when the stored \<open>callerId\<close> is truthy.
\<close>

theorem accept_ids_come_from_local_input:
  assumes "handleAcceptClick_sync s = Some s1"
    and "el_targetUserId (elements s) = Some target"
    and "el_currentUserId (elements s) = Some current"
    and "handleAppAcceptCall_sync ev s' = Some s2"
  shows
    "(sent_with CALL_ACCEPTED (new_effects s (handleAcceptClick env s)) =
       [JObj [(''to'', target), (''callerId'', target), (''calleeId'', current)]]
     \<and> list_all (\<lambda>p. field p ''callerRole'' = callerRole (invite s)
                      \<and> field p ''to'' = js_or (callerId (invite s)) target
                      \<and> field p ''callerId'' = target \<and> field p ''calleeId'' = current)
           (sent_with MEETING_READY (new_effects s (handleAcceptClick env s))))
     \<and> callerRole (invite s) \<noteq> JNull
     \<and> (sent_with CALL_ACCEPTED (new_effects s' (handleAppAcceptCall env ev s')) =
         [JObj [(''to'', field (event_detail ev) ''callerId''),
                (''callerId'', field (event_detail ev) ''callerId''),
                (''calleeId'', field (event_detail ev) ''calleeId'')]]
     \<and> list_all (\<lambda>p. field p ''callerRole'' = callerRole (invite s')
                      \<and> field p ''to'' = field (event_detail ev) ''callerId''
                      \<and> field p ''callerId'' = field (event_detail ev) ''callerId''
                      \<and> field p ''calleeId'' = field (event_detail ev) ''calleeId'')
           (sent_with MEETING_READY (new_effects s' (handleAppAcceptCall env ev s'))))
     \<and> callerRole (invite s') \<noteq> JNull"
  by (intro conjI handleAcceptClick_sends [OF assms(1-3)] handleAppAcceptCall_sends [OF assms(4)]
      handleAcceptClick_sync_Some(3) [OF assms(1-3)] handleAppAcceptCall_sync_Some(2) [OF assms(4)])

theorem accept_ids_come_from_local_input_witness:
  "handleAcceptClick_sync bob_ringing = Some (the (handleAcceptClick_sync bob_ringing))
   \<and> el_targetUserId (elements bob_ringing) = Some (JStr ''mallory'')
   \<and> el_currentUserId (elements bob_ringing) = Some (JStr ''bob'')
   \<and> handleAppAcceptCall_sync accept_event bob_ringing =
       Some (the (handleAppAcceptCall_sync accept_event bob_ringing))
   \<and> sent_with CALL_ACCEPTED (new_effects bob_ringing (handleAcceptClick provisioning_env bob_ringing)) =
       [JObj [(''to'', JStr ''mallory''), (''callerId'', JStr ''mallory''), (''calleeId'', JStr ''bob'')]]
   \<and> callerRole (invite bob_ringing) \<noteq> JNull
   \<and> sent_with CALL_ACCEPTED
        (new_effects bob_ringing (handleAppAcceptCall provisioning_env accept_event bob_ringing)) =
         [JObj [(''to'', field (event_detail accept_event) ''callerId''),
                (''callerId'', field (event_detail accept_event) ''callerId''),
                (''calleeId'', field (event_detail accept_event) ''calleeId'')]]"
  using accept_ids_come_from_local_input [OF scenario_accepts(1,3,4,2), of provisioning_env]
    scenario_accepts
  by blast

text \<open>
  The claim as stated fails. Alice's invitation is stored on Bob's page and ``mallory'' is
  in the target input: the button accept sends Accepted to mallory, naming mallory as the
  caller.
\<close>

theorem accept_ids_counterexample:
  "callerId (invite bob_ringing) = JStr ''alice''
   \<and> calleeId (invite bob_ringing) = JStr ''bob''
   \<and> sent_with CALL_ACCEPTED (new_effects bob_ringing (handleAcceptClick offline_env bob_ringing)) =
       [JObj [(''to'', JStr ''mallory''), (''callerId'', JStr ''mallory''), (''calleeId'', JStr ''bob'')]]"
proof -
  have "callerId (invite bob_ringing) = JStr ''alice''" "calleeId (invite bob_ringing) = JStr ''bob''"
    by (simp_all add: bob_ringing_eq)
  then show ?thesis
    using handleAcceptClick_sends [OF scenario_accepts(1,3,4), of offline_env] by blast
qed

section \<open>Accept through the app event\<close>

text \<open>
  C10. A valid accept through \<open>app:call:accept\<close> sends exactly one SelfStopRing and one
  Accepted and starts the provisioning chain with the request for a meeting id. When the
  handler returns, the callee ring timer (handle and pending timeout) and the guard
  \<open>_inCallOrConnecting\<close> have the values they had before the event; the chain that
  follows never touches the timer and never sets the guard (its \<open>.catch\<close> can only reset
  it). The button handler, by contrast, clears the callee ring timer and sets the guard.
\<close>

theorem app_accept_keeps_timer_and_guard:
  assumes "handleAppAcceptCall_sync ev s = Some s1"
    and "handleAcceptClick_sync s' = Some s2"
  shows
    "sent_with SELF_STOP_RING (new_effects s s1) =
       [JObj [(''to'', field (event_detail ev) ''calleeId''),
              (''calleeId'', field (event_detail ev) ''calleeId'')]]
     \<and> sent_with CALL_ACCEPTED (new_effects s s1) =
       [JObj [(''to'', field (event_detail ev) ''callerId''),
              (''callerId'', field (event_detail ev) ''callerId''),
              (''calleeId'', field (event_detail ev) ''calleeId'')]]
     \<and> calleeRingTimerId s1 = calleeRingTimerId s
     \<and> timers s1 = timers s
     \<and> inCallOrConnecting s1 = inCallOrConnecting s
     \<and> take (Suc (length (trace s1))) (trace (handleAppAcceptCall env ev s)) =
         trace s1 @ [ApiCall ''createInstantMeeting''
                       (JObj [(''initiatorId'', field (event_detail ev) ''calleeId'')])]
     \<and> calleeRingTimerId (handleAppAcceptCall env ev s) = calleeRingTimerId s
     \<and> timers (handleAppAcceptCall env ev s) = timers s
     \<and> (inCallOrConnecting (handleAppAcceptCall env ev s) \<longrightarrow> inCallOrConnecting s)
     \<and> calleeRingTimerId s2 = None
     \<and> inCallOrConnecting s2"
proof -
  note a = handleAppAcceptCall_sync_Some [OF assms(1)]
  let ?c = "field (event_detail ev) ''callerId''"
  let ?e = "field (event_detail ev) ''calleeId''"
  let ?r = "field (event_detail ev) ''role''"
  have sync: "sent_with SELF_STOP_RING (new_effects s s1) = [JObj [(''to'', ?e), (''calleeId'', ?e)]]
     \<and> sent_with CALL_ACCEPTED (new_effects s s1) =
         [JObj [(''to'', ?c), (''callerId'', ?c), (''calleeId'', ?e)]]
     \<and> calleeRingTimerId s1 = calleeRingTimerId s
     \<and> timers s1 = timers s
     \<and> inCallOrConnecting s1 = inCallOrConnecting s"
    by (subst a(1))+ (simp add: new_effects_def flag_defs)
  have ha: "handleAppAcceptCall env ev s = calleeMeetingFlow env False ?c ?e ?r s1"
    using assms(1) by (simp add: handleAppAcceptCall_def)
  obtain es where es: "trace (calleeMeetingFlow env False ?c ?e ?r s1) =
        trace s1 @ ApiCall ''createInstantMeeting'' (JObj [(''initiatorId'', ?e)]) # es"
    using calleeMeetingFlow_trace [of env False ?c ?e ?r s1] by blast
  have started: "take (Suc (length (trace s1))) (trace (handleAppAcceptCall env ev s)) =
      trace s1 @ [ApiCall ''createInstantMeeting'' (JObj [(''initiatorId'', ?e)])]"
    by (simp add: ha es)
  have chain: "calleeRingTimerId (handleAppAcceptCall env ev s) = calleeRingTimerId s
     \<and> timers (handleAppAcceptCall env ev s) = timers s
     \<and> (inCallOrConnecting (handleAppAcceptCall env ev s) \<longrightarrow> inCallOrConnecting s)"
    using sync calleeMeetingFlow_flag [of env False ?c ?e ?r s1]
    by (auto simp: ha calleeMeetingFlow_fields)
  have button: "calleeRingTimerId s2 = None \<and> inCallOrConnecting s2"
    using assms(2)
    by (auto simp: handleAcceptClick_sync_def Let_def send_defs split: if_splits)
  from sync started chain button show ?thesis by blast
qed

theorem app_accept_keeps_timer_and_guard_witness:
  "handleAppAcceptCall_sync accept_event bob_ringing =
     Some (the (handleAppAcceptCall_sync accept_event bob_ringing))
   \<and> handleAcceptClick_sync bob_ringing = Some (the (handleAcceptClick_sync bob_ringing))
   \<and> calleeRingTimerId (the (handleAppAcceptCall_sync accept_event bob_ringing)) = Some 1
   \<and> timers (the (handleAppAcceptCall_sync accept_event bob_ringing)) = [(1, CalleeRingTimeout)]
   \<and> \<not> inCallOrConnecting (the (handleAppAcceptCall_sync accept_event bob_ringing))
   \<and> calleeRingTimerId (handleAppAcceptCall provisioning_env accept_event bob_ringing) = Some 1
   \<and> \<not> inCallOrConnecting (handleAppAcceptCall provisioning_env accept_event bob_ringing)
   \<and> calleeRingTimerId (the (handleAcceptClick_sync bob_ringing)) = None
   \<and> inCallOrConnecting (the (handleAcceptClick_sync bob_ringing))"
proof -
  have before: "calleeRingTimerId bob_ringing = Some 1" "timers bob_ringing = [(1, CalleeRingTimeout)]"
    "\<not> inCallOrConnecting bob_ringing"
    by (simp_all add: bob_ringing_eq)
  show ?thesis
    using app_accept_keeps_timer_and_guard [OF scenario_accepts(2,1), of provisioning_env]
      scenario_accepts(1,2) before
    by simp
qed

section \<open>Failure of provisioning and of the join\<close>

lemma bob_ringing_app_accept_offline:
  "sent_with MEETING_PROBLEM
      (new_effects bob_ringing (handleAppAcceptCall offline_env accept_event bob_ringing)) =
     [JObj [(''to'', JStr ''alice''), (''meetingId'', JStr ''unknown''),
            (''callerId'', JStr ''alice''), (''calleeId'', JStr ''bob''),
            (''message'', JStr ''Failed to fetch'')]]
   \<and> \<not> inCallOrConnecting (handleAppAcceptCall offline_env accept_event bob_ringing)"
proof -
  obtain s1 where s1: "handleAppAcceptCall_sync accept_event bob_ringing = Some s1"
    using scenario_accepts(2) by blast
  have d: "field (event_detail accept_event) ''callerId'' = JStr ''alice''"
    "field (event_detail accept_event) ''calleeId'' = JStr ''bob''"
    by (simp_all add: accept_event_def event_detail_def)
  have db: "fst (getMeetingID (dbReply offline_env) (JStr ''bob'') r) = Inl ''Failed to fetch''" for r
    by (simp add: getMeetingID_def offline_env_def)
  have flow: "handleAppAcceptCall offline_env accept_event bob_ringing =
      calleeFlowCatch (JStr ''alice'') (JStr ''bob'') ''Failed to fetch''
        (emits [ApiCall ''createInstantMeeting'' (JObj [(''initiatorId'', JStr ''bob'')])] s1)"
    by (simp add: handleAppAcceptCall_def s1 calleeMeetingFlow_def Let_def d db)
  have t: "trace s1 = trace bob_ringing @
      [UIDispatch ''callee:callAccepted'' ''none''
         (JObj [(''callerId'', JStr ''alice''), (''calleeId'', JStr ''bob''),
                (''role'', field (event_detail accept_event) ''role'')]),
       SocketSend SELF_STOP_RING (JObj [(''to'', JStr ''bob''), (''calleeId'', JStr ''bob'')]),
       SocketSend CALL_ACCEPTED
         (JObj [(''to'', JStr ''alice''), (''callerId'', JStr ''alice''), (''calleeId'', JStr ''bob'')]),
       DocEvent CALL_ACCEPTED (JObj [(''callerId'', JStr ''alice''), (''calleeId'', JStr ''bob'')]),
       SocketSend MEETING_STATUS
         (JObj [(''to'', JStr ''alice''), (''status'', JStr ''creating_db''),
                (''message'', JStr ''Creating meeting in database...'')])]"
    by (subst handleAppAcceptCall_sync_Some(1) [OF s1]) (simp add: d)
  show ?thesis
    unfolding flow
    by (simp add: new_effects_def t error_message_def flag_defs)
qed

text \<open>
  C5. The claim: on both sides, a failed provisioning step or join sends exactly one
  MeetingProblem to the peer and resets \<open>_inCallOrConnecting\<close>. The callee's chain does
  so: with every request failing, Bob's accept of Alice's call sends one MeetingProblem to
  Alice and leaves the guard reset. The caller's join does not: Bob, whose call Carol has
  accepted (guard set), receives a valid MeetingReady and the addAttendee request is
  answered with status 500; the \<open>.catch\<close> of \<open>handleSocketMeetingReady\<close> dispatches
  \<open>caller:terminated / error\<close> and a local \<open>meeting:problem\<close> document event, sends
  nothing over the socket, and leaves the guard set.
\<close>

theorem caller_join_failure_keeps_guard:
  "inCallOrConnecting bob_accepted
   \<and> passes_checks MeetingReady ready_from_carol
   \<and> fst (joinChimeMeeting failing_join_env (JStr ''m-1'') (JStr ''bob'') (JStr ''host'')
            (JStr ''chime-1'') JNull JNull) = Inl ''addAttendee failed: 500 Internal Server Error''
   \<and> ui_dispatches (new_effects bob_accepted
        (handleSocketMeetingReady failing_join_env ready_from_carol bob_accepted)) =
       [(''caller:callAccepted'', ''none''), (''caller:terminated'', ''error'')]
   \<and> sent_with MEETING_PROBLEM (new_effects bob_accepted
        (handleSocketMeetingReady failing_join_env ready_from_carol bob_accepted)) = []
   \<and> inCallOrConnecting (handleSocketMeetingReady failing_join_env ready_from_carol bob_accepted)
   \<and> sent_with MEETING_PROBLEM
        (new_effects bob_ringing (handleAppAcceptCall offline_env accept_event bob_ringing)) =
       [JObj [(''to'', JStr ''alice''), (''meetingId'', JStr ''unknown''),
              (''callerId'', JStr ''alice''), (''calleeId'', JStr ''bob''),
              (''message'', JStr ''Failed to fetch'')]]
   \<and> \<not> inCallOrConnecting (handleAppAcceptCall offline_env accept_event bob_ringing)"
proof -
  have j: "joinChimeMeeting failing_join_env (JStr ''m-1'') (JStr ''bob'') (JStr ''host'')
            (JStr ''chime-1'') JNull JNull =
      (Inl ''addAttendee failed: 500 Internal Server Error'',
       [ApiCall ''addAttendee''
          (JObj [(''action'', JStr ''addAttendee''), (''meetingId'', JStr ''chime-1''),
                 (''externalUserId'', JStr ''bob''), (''role'', JStr ''host'')])])"
    by (simp add: joinChimeMeeting_def addAttendeeResult_def failing_join_env_def offline_env_def
        Let_def)
  have enc: "encodeURIComponent failing_join_env = to_str"
    by (simp add: failing_join_env_def offline_env_def)
  have f: "field ready_from_carol ''meetingId'' = JStr ''m-1''"
    "field ready_from_carol ''callerId'' = JStr ''bob''"
    "field ready_from_carol ''calleeId'' = JStr ''carol''"
    "field ready_from_carol ''callerRole'' = JStr ''host''"
    "field ready_from_carol ''calleeRole'' = JStr ''guest''"
    "field ready_from_carol ''chimeMeetingId'' = JStr ''chime-1''"
    "truthy ready_from_carol"
    by (simp_all add: ready_from_carol_def)
  have r: "trace (handleSocketMeetingReady failing_join_env ready_from_carol bob_accepted) =
      trace bob_accepted @
      [UIDispatch ''caller:callAccepted'' ''none''
         (JObj [(''side'', JStr ''caller''), (''meetingId'', JStr ''m-1''),
                (''joinUrl'', JStr ''https://example.com/join/m-1?user=bob&role=host''),
                (''callerId'', JStr ''bob''), (''calleeId'', JStr ''carol''),
                (''callerRole'', JStr ''host''), (''calleeRole'', JStr ''guest'')]),
       ApiCall ''addAttendee''
          (JObj [(''action'', JStr ''addAttendee''), (''meetingId'', JStr ''chime-1''),
                 (''externalUserId'', JStr ''bob''), (''role'', JStr ''host'')]),
       UIDispatch ''caller:terminated'' ''error''
         (JObj [(''message'', JStr ''caller join failed''), (''meetingId'', JStr ''m-1'')]),
       DocEvent MEETING_PROBLEM
         (JObj [(''meetingId'', JStr ''m-1''), (''callerId'', JStr ''bob''),
                (''calleeId'', JStr ''carol''), (''message'', JStr ''join failed'')])]"
    "inCallOrConnecting (handleSocketMeetingReady failing_join_env ready_from_carol bob_accepted)"
    by (simp_all add: handleSocketMeetingReady_def f missing_def Let_def send_defs j
        bob_accepted_fields enc)
  have caller: "ui_dispatches (new_effects bob_accepted
        (handleSocketMeetingReady failing_join_env ready_from_carol bob_accepted)) =
       [(''caller:callAccepted'', ''none''), (''caller:terminated'', ''error'')]
   \<and> sent_with MEETING_PROBLEM (new_effects bob_accepted
        (handleSocketMeetingReady failing_join_env ready_from_carol bob_accepted)) = []"
    by (simp add: new_effects_def r(1))
  show ?thesis
    using caller r(2) bob_ringing_app_accept_offline
    by (simp add: bob_accepted_fields passes_checks_samples j)
qed

section \<open>Credential extraction\<close>

lemma nullish_field: "nullish v \<Longrightarrow> field v k = JUndefined"
  by (cases v) simp_all

lemma decodedMeeting_envelope:
  "decodedMeeting dec data cid = nestedMeeting (meetingInfoEnvelope dec data) cid"
  by (auto simp: decodedMeeting_def nestedMeeting_def meetingInfoEnvelope_def nullish_field
      split: option.splits)

lemma decodedAttendee_envelope:
  "(if \<not> truthy (decodedAttendee dec data) then fallback else decodedAttendee dec data) =
     js_or (field (meetingInfoEnvelope dec data) ''Attendee'') fallback"
  by (auto simp: decodedAttendee_def meetingInfoEnvelope_def js_or_def nullish_field
      split: option.splits)

lemma nestedMeeting_cases:
  "nestedMeeting envelope cid = JUndefined \<or> has_placement (nestedMeeting envelope cid)"
  by (simp add: nestedMeeting_def has_placement_def)

lemma flattenedMeeting_cases:
  "flattenedMeeting data cid = JUndefined \<or> has_placement (flattenedMeeting data cid)"
  by (simp add: flattenedMeeting_def has_placement_def)

lemma meetingField_cases:
  "meetingField data = JUndefined \<or> has_placement (meetingField data)"
  by (simp add: meetingField_def has_placement_def)

lemma has_placement_truthy: "has_placement c \<Longrightarrow> truthy c"
  by (simp add: has_placement_def)

lemma selectMeeting_first_truthy:
  "selectMeeting dec data cid full =
     (if truthy (nestedMeeting (meetingInfoEnvelope dec data) cid)
      then nestedMeeting (meetingInfoEnvelope dec data) cid
      else if truthy (flattenedMeeting data cid) then flattenedMeeting data cid
      else if truthy (meetingField data) then meetingField data
      else if truthy full then full
      else JUndefined)"
  using nestedMeeting_cases [of "meetingInfoEnvelope dec data" cid]
  by (auto simp: selectMeeting_def decodedMeeting_envelope flattenedMeeting_def meetingField_def
      Let_def dest: has_placement_truthy)

lemma extractCredentials_first_valid:
  "extractCredentials dec data cid uid full =
     (case find has_placement (candidates dec data cid full) of
        None \<Rightarrow> Inl MISSING_PLACEMENT
      | Some meeting \<Rightarrow>
          Inr (meeting,
               js_or (field (meetingInfoEnvelope dec data) ''Attendee'')
                 (JObj [(''AttendeeId'', field data ''attendeeId''), (''ExternalUserId'', uid)])))"
proof -
  let ?n = "nestedMeeting (meetingInfoEnvelope dec data) cid"
  consider (a) "has_placement ?n"
    | (b) "?n = JUndefined" "has_placement (flattenedMeeting data cid)"
    | (c) "?n = JUndefined" "flattenedMeeting data cid = JUndefined"
        "has_placement (meetingField data)"
    | (d) "?n = JUndefined" "flattenedMeeting data cid = JUndefined"
        "meetingField data = JUndefined"
    using nestedMeeting_cases [of "meetingInfoEnvelope dec data" cid]
      flattenedMeeting_cases [of data cid] meetingField_cases [of data]
    by blast
  then show ?thesis
  proof cases
    case a
    then show ?thesis
      by (simp add: extractCredentials_def selectMeeting_first_truthy candidates_def Let_def
          has_placement_def decodedAttendee_envelope)
  next
    case b
    then show ?thesis
      by (simp add: extractCredentials_def selectMeeting_first_truthy candidates_def Let_def
          has_placement_def decodedAttendee_envelope)
  next
    case c
    then show ?thesis
      by (simp add: extractCredentials_def selectMeeting_first_truthy candidates_def Let_def
          has_placement_def decodedAttendee_envelope)
  next
    case d
    then show ?thesis
      by (simp add: extractCredentials_def selectMeeting_first_truthy candidates_def Let_def
          has_placement_def decodedAttendee_envelope)
  qed
qed

lemma find_has_placement_first:
  "has_placement c \<Longrightarrow> find has_placement (c # cs) = Some c"
  by simp

lemma find_has_placement_skip:
  "\<not> has_placement c \<Longrightarrow> find has_placement (c # cs) = find has_placement cs"
  by simp

text \<open>
  C8, as the code has it. Once the addAttendee response is there, parsed, and carries
  \<open>success\<close> and an \<open>attendeeId\<close>, the join step tries four candidates in this order:
  the meeting built from the decoded \<open>meetingInfo\<close> envelope, the top-level flattened
  form (both accepted only with \<open>MediaPlacement.AudioHostUrl\<close>), the \<open>meeting\<close> field of
  the response, and the fallback descriptor passed in. It uses the first candidate that
  carries \<open>MediaPlacement\<close>, and it throws (the missing-placement error) if and only if
  none does. Said of the decoding itself: when \<open>meetingInfo\<close> decodes to an envelope
  \<open>d\<close> with \<open>MediaPlacement.AudioHostUrl\<close>, the meeting is built from \<open>d\<close> whatever the
  other three candidates hold; when \<open>d\<close> lacks it, the choice is the first of the other
  three that carries \<open>MediaPlacement\<close>.
\<close>

theorem credential_extraction_order:
  assumes "attendeeReply env = Reply True status bodyText (Inr data)"
    and "\<not> nullish data"
    and "truthy (field data ''success'')"
    and "truthy (field data ''attendeeId'')"
  shows
    "addAttendeeResult env cid uid full =
       (case find has_placement (candidates (decode env) data cid full) of
          None \<Rightarrow> Inl MISSING_PLACEMENT
        | Some meeting \<Rightarrow>
            Inr (meeting,
                 js_or (field (meetingInfoEnvelope (decode env) data) ''Attendee'')
                   (JObj [(''AttendeeId'', field data ''attendeeId''), (''ExternalUserId'', uid)])))
     \<and> ((\<exists>err. fst (joinChimeMeeting env m uid role cid ct full) = Inl err) =
          (\<not> list_ex has_placement (candidates (decode env) data cid full)))
     \<and> ((\<exists>err. fst (joinChimeMeeting env m uid role cid ct full) = Inl err) =
          (fst (joinChimeMeeting env m uid role cid ct full) = Inl MISSING_PLACEMENT))
     \<and> (\<forall>d. truthy (field data ''meetingInfo'') \<and>
             decode env (field data ''meetingInfo'') = Some d \<and>
             truthy (field d ''MediaPlacement'') \<and>
             truthy (field (field d ''MediaPlacement'') ''AudioHostUrl'') \<longrightarrow>
           addAttendeeResult env cid uid full =
             Inr (JObj [(''MeetingId'', js_or (field d ''MeetingId'') cid),
                        (''MediaPlacement'', field d ''MediaPlacement''),
                        (''MediaRegion'', js_or (field d ''MediaRegion'') (JStr ''ap-northeast-1'')),
                        (''ExternalMeetingId'', js_or (field d ''ExternalMeetingId'') cid)],
                  js_or (field d ''Attendee'')
                    (JObj [(''AttendeeId'', field data ''attendeeId''), (''ExternalUserId'', uid)])))
     \<and> (\<forall>d. truthy (field data ''meetingInfo'') \<and>
             decode env (field data ''meetingInfo'') = Some d \<and>
             \<not> (truthy (field d ''MediaPlacement'') \<and>
                truthy (field (field d ''MediaPlacement'') ''AudioHostUrl'')) \<longrightarrow>
           addAttendeeResult env cid uid full =
             (case find has_placement [flattenedMeeting data cid, meetingField data, full] of
                None \<Rightarrow> Inl MISSING_PLACEMENT
              | Some meeting \<Rightarrow>
                  Inr (meeting,
                       js_or (field d ''Attendee'')
                         (JObj [(''AttendeeId'', field data ''attendeeId''),
                                (''ExternalUserId'', uid)]))))"
proof -
  let ?cs = "candidates (decode env) data cid full"
  let ?join = "fst (joinChimeMeeting env m uid role cid ct full)"
  have r: "addAttendeeResult env cid uid full =
      extractCredentials (decode env) data cid uid full"
    using assms by (simp add: addAttendeeResult_def)
  have none: "(find has_placement xs = None) = (\<not> list_ex has_placement xs)" for xs :: "jsval list"
    by (auto simp: find_None_iff list_ex_iff)
  have first: "addAttendeeResult env cid uid full =
       (case find has_placement ?cs of
          None \<Rightarrow> Inl MISSING_PLACEMENT
        | Some meeting \<Rightarrow>
            Inr (meeting,
                 js_or (field (meetingInfoEnvelope (decode env) data) ''Attendee'')
                   (JObj [(''AttendeeId'', field data ''attendeeId''), (''ExternalUserId'', uid)])))"
    unfolding r by (rule extractCredentials_first_valid)
  have throws: "(\<exists>err. ?join = Inl err) = (\<not> list_ex has_placement ?cs)"
    using none [of ?cs]
    by (cases "find has_placement ?cs") (simp_all add: joinChimeMeeting_def Let_def first)
  have message: "(\<exists>err. ?join = Inl err) = (?join = Inl MISSING_PLACEMENT)"
    by (cases "find has_placement ?cs") (simp_all add: joinChimeMeeting_def Let_def first)
  have accepted: "addAttendeeResult env cid uid full =
         Inr (JObj [(''MeetingId'', js_or (field d ''MeetingId'') cid),
                    (''MediaPlacement'', field d ''MediaPlacement''),
                    (''MediaRegion'', js_or (field d ''MediaRegion'') (JStr ''ap-northeast-1'')),
                    (''ExternalMeetingId'', js_or (field d ''ExternalMeetingId'') cid)],
              js_or (field d ''Attendee'')
                (JObj [(''AttendeeId'', field data ''attendeeId''), (''ExternalUserId'', uid)]))"
    if "truthy (field data ''meetingInfo'')" "decode env (field data ''meetingInfo'') = Some d"
      "truthy (field d ''MediaPlacement'')"
      "truthy (field (field d ''MediaPlacement'') ''AudioHostUrl'')" for d
  proof -
    have e: "meetingInfoEnvelope (decode env) data = d"
      using that by (simp add: meetingInfoEnvelope_def)
    show ?thesis
      using that
      by (simp add: first candidates_def e nestedMeeting_def has_placement_def)
  qed
  have skipped: "addAttendeeResult env cid uid full =
         (case find has_placement [flattenedMeeting data cid, meetingField data, full] of
            None \<Rightarrow> Inl MISSING_PLACEMENT
          | Some meeting \<Rightarrow>
              Inr (meeting,
                   js_or (field d ''Attendee'')
                     (JObj [(''AttendeeId'', field data ''attendeeId''),
                            (''ExternalUserId'', uid)])))"
    if "truthy (field data ''meetingInfo'')" "decode env (field data ''meetingInfo'') = Some d"
      "\<not> (truthy (field d ''MediaPlacement'') \<and>
          truthy (field (field d ''MediaPlacement'') ''AudioHostUrl''))" for d
  proof -
    have e: "meetingInfoEnvelope (decode env) data = d"
      using that by (simp add: meetingInfoEnvelope_def)
    have n: "nestedMeeting d cid = JUndefined"
      using that by (simp add: nestedMeeting_def)
    have "find has_placement ?cs =
        find has_placement [flattenedMeeting data cid, meetingField data, full]"
      unfolding candidates_def e n
      by (rule find_has_placement_skip) (simp add: has_placement_def)
    then show ?thesis
      by (simp add: first e)
  qed
  from first throws message accepted skipped show ?thesis
    by blast
qed

theorem credential_extraction_order_witness:
  "attendeeReply nested_join_env = Reply True ''200 OK'' [] (Inr attendee_nested)
   \<and> \<not> nullish attendee_nested
   \<and> truthy (field attendee_nested ''success'')
   \<and> truthy (field attendee_nested ''attendeeId'')
   \<and> truthy (field attendee_nested ''meetingInfo'')
   \<and> decode nested_join_env (field attendee_nested ''meetingInfo'') = Some envelope_with_audio
   \<and> truthy (field envelope_with_audio ''MediaPlacement'')
   \<and> truthy (field (field envelope_with_audio ''MediaPlacement'') ''AudioHostUrl'')
   \<and> has_placement (flattenedMeeting attendee_nested (JStr ''chime-1''))
   \<and> has_placement fallback_meeting
   \<and> addAttendeeResult nested_join_env (JStr ''chime-1'') (JStr ''bob'') fallback_meeting =
       Inr (JObj [(''MeetingId'', JStr ''chime-9''),
                  (''MediaPlacement'', JObj [(''AudioHostUrl'', JStr ''wss://n'')]),
                  (''MediaRegion'', JStr ''ap-northeast-1''),
                  (''ExternalMeetingId'', JStr ''chime-1'')],
            JObj [(''AttendeeId'', JStr ''att-9'')])
   \<and> attendeeReply without_audio_join_env = Reply True ''200 OK'' [] (Inr attendee_nested_without_audio)
   \<and> \<not> nullish attendee_nested_without_audio
   \<and> truthy (field attendee_nested_without_audio ''success'')
   \<and> truthy (field attendee_nested_without_audio ''attendeeId'')
   \<and> truthy (field attendee_nested_without_audio ''meetingInfo'')
   \<and> decode without_audio_join_env (field attendee_nested_without_audio ''meetingInfo'') =
       Some envelope_without_audio
   \<and> truthy (field envelope_without_audio ''MediaPlacement'')
   \<and> \<not> truthy (field (field envelope_without_audio ''MediaPlacement'') ''AudioHostUrl'')
   \<and> addAttendeeResult without_audio_join_env (JStr ''chime-1'') (JStr ''bob'') fallback_meeting =
       Inr (JObj [(''MeetingId'', JStr ''chime-1''),
                  (''MediaPlacement'', JObj [(''AudioHostUrl'', JStr ''wss://a'')]),
                  (''MediaRegion'', JStr ''ap-northeast-1''),
                  (''ExternalMeetingId'', JStr ''chime-1'')],
            JObj [(''AttendeeId'', JStr ''att-1''), (''ExternalUserId'', JStr ''bob'')])"
proof -
  have p1: "attendeeReply nested_join_env = Reply True ''200 OK'' [] (Inr attendee_nested)"
    "\<not> nullish attendee_nested" "truthy (field attendee_nested ''success'')"
    "truthy (field attendee_nested ''attendeeId'')"
    by (simp_all add: nested_join_env_def offline_env_def attendee_nested_def)
  have d1: "truthy (field attendee_nested ''meetingInfo'')"
    "decode nested_join_env (field attendee_nested ''meetingInfo'') = Some envelope_with_audio"
    by (simp_all add: nested_join_env_def offline_env_def attendee_nested_def sample_decode_def
        meetingInfo_with_audio_def)
  have a1: "truthy (field envelope_with_audio ''MediaPlacement'')"
    "truthy (field (field envelope_with_audio ''MediaPlacement'') ''AudioHostUrl'')"
    by (simp_all add: envelope_with_audio_def)
  have o1: "has_placement (flattenedMeeting attendee_nested (JStr ''chime-1''))"
    "has_placement fallback_meeting"
    by (simp_all add: flattenedMeeting_def attendee_nested_def fallback_meeting_def
        has_placement_def)
  have r1: "addAttendeeResult nested_join_env (JStr ''chime-1'') (JStr ''bob'') fallback_meeting =
       Inr (JObj [(''MeetingId'', JStr ''chime-9''),
                  (''MediaPlacement'', JObj [(''AudioHostUrl'', JStr ''wss://n'')]),
                  (''MediaRegion'', JStr ''ap-northeast-1''),
                  (''ExternalMeetingId'', JStr ''chime-1'')],
            JObj [(''AttendeeId'', JStr ''att-9'')])"
  proof -
    have "addAttendeeResult nested_join_env (JStr ''chime-1'') (JStr ''bob'') fallback_meeting =
        Inr (JObj [(''MeetingId'', js_or (field envelope_with_audio ''MeetingId'') (JStr ''chime-1'')),
                   (''MediaPlacement'', field envelope_with_audio ''MediaPlacement''),
                   (''MediaRegion'',
                      js_or (field envelope_with_audio ''MediaRegion'') (JStr ''ap-northeast-1'')),
                   (''ExternalMeetingId'',
                      js_or (field envelope_with_audio ''ExternalMeetingId'') (JStr ''chime-1''))],
             js_or (field envelope_with_audio ''Attendee'')
               (JObj [(''AttendeeId'', field attendee_nested ''attendeeId''),
                      (''ExternalUserId'', JStr ''bob'')]))"
      using credential_extraction_order [OF p1, of "JStr ''chime-1''" "JStr ''bob''" fallback_meeting
          JNull JNull JNull] d1 a1
      by blast
    then show ?thesis
      by (simp add: envelope_with_audio_def js_or_def)
  qed
  have p2: "attendeeReply without_audio_join_env = Reply True ''200 OK'' [] (Inr attendee_nested_without_audio)"
    "\<not> nullish attendee_nested_without_audio" "truthy (field attendee_nested_without_audio ''success'')"
    "truthy (field attendee_nested_without_audio ''attendeeId'')"
    by (simp_all add: without_audio_join_env_def offline_env_def attendee_nested_without_audio_def)
  have d2: "truthy (field attendee_nested_without_audio ''meetingInfo'')"
    "decode without_audio_join_env (field attendee_nested_without_audio ''meetingInfo'') =
       Some envelope_without_audio"
    by (simp_all add: without_audio_join_env_def offline_env_def attendee_nested_without_audio_def
        sample_decode_def meetingInfo_with_audio_def meetingInfo_without_audio_def)
  have a2: "truthy (field envelope_without_audio ''MediaPlacement'')"
    "\<not> truthy (field (field envelope_without_audio ''MediaPlacement'') ''AudioHostUrl'')"
    by (simp_all add: envelope_without_audio_def)
  have r2: "addAttendeeResult without_audio_join_env (JStr ''chime-1'') (JStr ''bob'') fallback_meeting =
       Inr (JObj [(''MeetingId'', JStr ''chime-1''),
                  (''MediaPlacement'', JObj [(''AudioHostUrl'', JStr ''wss://a'')]),
                  (''MediaRegion'', JStr ''ap-northeast-1''),
                  (''ExternalMeetingId'', JStr ''chime-1'')],
            JObj [(''AttendeeId'', JStr ''att-1''), (''ExternalUserId'', JStr ''bob'')])"
  proof -
    have "addAttendeeResult without_audio_join_env (JStr ''chime-1'') (JStr ''bob'') fallback_meeting =
        (case find has_placement
                [flattenedMeeting attendee_nested_without_audio (JStr ''chime-1''),
                 meetingField attendee_nested_without_audio, fallback_meeting] of
           None \<Rightarrow> Inl MISSING_PLACEMENT
         | Some meeting \<Rightarrow>
             Inr (meeting,
                  js_or (field envelope_without_audio ''Attendee'')
                    (JObj [(''AttendeeId'', field attendee_nested_without_audio ''attendeeId''),
                           (''ExternalUserId'', JStr ''bob'')])))"
      using credential_extraction_order [OF p2, of "JStr ''chime-1''" "JStr ''bob''" fallback_meeting
          JNull JNull JNull] d2 a2
      by blast
    then show ?thesis
      by (simp add: flattenedMeeting_def attendee_nested_without_audio_def envelope_without_audio_def
          has_placement_def js_or_def)
  qed
  show ?thesis
    by (intro conjI) (fact p1 d1 a1 o1 r1 p2 d2 a2 r2)+
qed

text \<open>
  The claim as stated fails. A response that carries the meeting only in its \<open>meeting\<close>
  field offers none of the three candidates of the claim, and with no fallback passed the
  extraction still succeeds, with that field; with a valid fallback passed as well, the
  field is used and not the fallback.
\<close>

theorem credential_extraction_counterexample:
  "\<not> list_ex has_placement
        (spec_candidates sample_decode attendee_with_meeting_field (JStr ''chime-1'') JNull)
   \<and> extractCredentials sample_decode attendee_with_meeting_field (JStr ''chime-1'') (JStr ''bob'') JNull =
       Inr (JObj [(''MediaPlacement'', JObj [(''AudioHostUrl'', JStr ''wss://a'')])],
            JObj [(''AttendeeId'', JStr ''att-1''), (''ExternalUserId'', JStr ''bob'')])
   \<and> has_placement fallback_meeting
   \<and> extractCredentials sample_decode attendee_with_meeting_field (JStr ''chime-1'') (JStr ''bob'')
        fallback_meeting =
       Inr (JObj [(''MediaPlacement'', JObj [(''AudioHostUrl'', JStr ''wss://a'')])],
            JObj [(''AttendeeId'', JStr ''att-1''), (''ExternalUserId'', JStr ''bob'')])"
  by (simp add: spec_candidates_def extractCredentials_def selectMeeting_def decodedMeeting_def
      decodedAttendee_def flattenedMeeting_def nestedMeeting_def meetingInfoEnvelope_def
      attendee_with_meeting_field_def fallback_meeting_def has_placement_def Let_def)

section \<open>Manual join\<close>

lemma manual_flow_stores_pending:
  assumes manual: "CALLEE_MANUAL_JOIN_ENABLED env"
    and db: "fst (getMeetingID (dbReply env) e r) = Inr mid"
    and chime: "fst (createChimeMeeting (chimeReply env) mid e r) = Inr (ch, fm)"
  shows "pendingCalleeJoin (calleeMeetingFlow env fb c e r s) =
           Some \<lparr>pj_meetingId = mid, pj_calleeId = e, pj_calleeRole = r, pj_chimeId = ch,
                 pj_callType = callType (invite s), pj_fullMeeting = fm\<rparr>
       \<and> join_attempts (new_effects s (calleeMeetingFlow env fb c e r s)) = []"
proof -
  let ?s1 = "emits (snd (getMeetingID (dbReply env) e r)) s"
  let ?first = "afterMeetingId env c e r mid ?s1"
  let ?second = "afterChimeMeeting env fb c e r mid ch fm (snd ?first)"
  have f: "fst ?first = Resolved (ch, fm)"
    using manual chime by (simp add: afterMeetingId_def Let_def)
  note m = afterChimeMeeting_manual [OF manual, of fb c e r mid ch fm "snd ?first"]
  have flow: "calleeMeetingFlow env fb c e r s = snd ?second"
    using db f m by (simp add: calleeMeetingFlow_def Let_def)
  have pend: "pendingCalleeJoin (calleeMeetingFlow env fb c e r s) =
           Some \<lparr>pj_meetingId = mid, pj_calleeId = e, pj_calleeRole = r, pj_chimeId = ch,
                 pj_callType = callType (invite s), pj_fullMeeting = fm\<rparr>"
    using m by (simp add: flow)
  obtain es where es: "trace (calleeMeetingFlow env fb c e r s) =
          trace s @ ApiCall ''createInstantMeeting'' (JObj [(''initiatorId'', e)]) # es"
      "CALLEE_MANUAL_JOIN_ENABLED env \<longrightarrow> join_attempts es = []"
    using calleeMeetingFlow_trace [of env fb c e r s] by blast
  have "join_attempts (new_effects s (calleeMeetingFlow env fb c e r s)) = []"
    using es(2) manual by (simp add: new_effects_def es(1))
  with pend show ?thesis by simp
qed

lemma handleManualCalleeJoin_consumes:
  assumes "pendingCalleeJoin s = Some p"
  shows "pendingCalleeJoin (handleManualCalleeJoin env s) = None
       \<and> join_attempts (new_effects s (handleManualCalleeJoin env s)) =
           [JObj [(''action'', JStr ''addAttendee''), (''meetingId'', pj_chimeId p),
                  (''externalUserId'', pj_calleeId p), (''role'', pj_calleeRole p)]]"
  using assms
  by (simp add: handleManualCalleeJoin_def Let_def send_defs new_effects_def split: sum.splits)

lemma handleManualCalleeJoin_idle:
  "pendingCalleeJoin s = None \<Longrightarrow> handleManualCalleeJoin env s = s"
  by (simp add: handleManualCalleeJoin_def)

lemma handleManualCalleeJoin_empties:
  "pendingCalleeJoin (handleManualCalleeJoin env s) = None"
  by (cases "pendingCalleeJoin s")
    (simp_all add: handleManualCalleeJoin_idle handleManualCalleeJoin_consumes)

text \<open>
  C9. In manual-join mode a provisioning chain whose two meeting requests succeed stores
  the join descriptor in \<open>_pendingCalleeJoin\<close> and makes no join attempt. With a
  descriptor pending, the confirm-join action empties the slot and starts exactly one
  join, with the descriptor's meeting, user and role. A further confirm-join action, with
  no new descriptor stored, leaves the whole state as it is: no state change, nothing
  added to the trace, no join attempt.
\<close>

theorem pending_join_consumed_once:
  assumes "CALLEE_MANUAL_JOIN_ENABLED env"
    and "fst (getMeetingID (dbReply env) e r) = Inr mid"
    and "fst (createChimeMeeting (chimeReply env) mid e r) = Inr (ch, fm)"
    and "pendingCalleeJoin s' = Some p"
  shows
    "pendingCalleeJoin (calleeMeetingFlow env fb c e r s) =
       Some \<lparr>pj_meetingId = mid, pj_calleeId = e, pj_calleeRole = r, pj_chimeId = ch,
             pj_callType = callType (invite s), pj_fullMeeting = fm\<rparr>
     \<and> join_attempts (new_effects s (calleeMeetingFlow env fb c e r s)) = []
     \<and> pendingCalleeJoin (handleManualCalleeJoin env1 s') = None
     \<and> join_attempts (new_effects s' (handleManualCalleeJoin env1 s')) =
         [JObj [(''action'', JStr ''addAttendee''), (''meetingId'', pj_chimeId p),
                (''externalUserId'', pj_calleeId p), (''role'', pj_calleeRole p)]]
     \<and> handleManualCalleeJoin env2 (handleManualCalleeJoin env1 s') = handleManualCalleeJoin env1 s'
     \<and> join_attempts (new_effects (handleManualCalleeJoin env1 s')
          (handleManualCalleeJoin env2 (handleManualCalleeJoin env1 s'))) = []"
proof -
  have again: "handleManualCalleeJoin env2 (handleManualCalleeJoin env1 s') =
      handleManualCalleeJoin env1 s'"
    by (rule handleManualCalleeJoin_idle [OF handleManualCalleeJoin_empties])
  have quiet: "join_attempts (new_effects (handleManualCalleeJoin env1 s')
          (handleManualCalleeJoin env2 (handleManualCalleeJoin env1 s'))) = []"
    by (simp add: again new_effects_def)
  from manual_flow_stores_pending [OF assms(1-3), of fb c s]
    handleManualCalleeJoin_consumes [OF assms(4), of env1] again quiet
  show ?thesis by blast
qed

theorem pending_join_consumed_once_witness:
  "CALLEE_MANUAL_JOIN_ENABLED provisioning_env
   \<and> fst (getMeetingID (dbReply provisioning_env) (JStr ''bob'') (JStr ''guest'')) = Inr (JStr ''m-1'')
   \<and> fst (createChimeMeeting (chimeReply provisioning_env) (JStr ''m-1'') (JStr ''bob'') (JStr ''guest'')) =
       Inr (JStr ''chime-1'', JObj [(''MediaPlacement'', JObj [(''AudioHostUrl'', JStr ''wss://a'')])])
   \<and> pendingCalleeJoin (handleAppAcceptCall provisioning_env accept_event bob_ringing) =
       Some \<lparr>pj_meetingId = JStr ''m-1'', pj_calleeId = JStr ''bob'', pj_calleeRole = JStr ''guest'',
             pj_chimeId = JStr ''chime-1'', pj_callType = JStr ''video'',
             pj_fullMeeting = JObj [(''MediaPlacement'', JObj [(''AudioHostUrl'', JStr ''wss://a'')])]\<rparr>
   \<and> pendingCalleeJoin (handleManualCalleeJoin flat_join_env
        (handleAppAcceptCall provisioning_env accept_event bob_ringing)) = None
   \<and> join_attempts (new_effects (handleAppAcceptCall provisioning_env accept_event bob_ringing)
        (handleManualCalleeJoin flat_join_env
           (handleAppAcceptCall provisioning_env accept_event bob_ringing))) =
       [JObj [(''action'', JStr ''addAttendee''), (''meetingId'', JStr ''chime-1''),
              (''externalUserId'', JStr ''bob''), (''role'', JStr ''guest'')]]
   \<and> handleManualCalleeJoin offline_env
        (handleManualCalleeJoin flat_join_env
           (handleAppAcceptCall provisioning_env accept_event bob_ringing)) =
       handleManualCalleeJoin flat_join_env
         (handleAppAcceptCall provisioning_env accept_event bob_ringing)"
proof -
  let ?fm = "JObj [(''MediaPlacement'', JObj [(''AudioHostUrl'', JStr ''wss://a'')])]"
  let ?p = "\<lparr>pj_meetingId = JStr ''m-1'', pj_calleeId = JStr ''bob'', pj_calleeRole = JStr ''guest'',
             pj_chimeId = JStr ''chime-1'', pj_callType = JStr ''video'', pj_fullMeeting = ?fm\<rparr>"
  have m: "CALLEE_MANUAL_JOIN_ENABLED provisioning_env"
    by (simp add: provisioning_env_def offline_env_def)
  have db: "fst (getMeetingID (dbReply provisioning_env) (JStr ''bob'') (JStr ''guest'')) =
      Inr (JStr ''m-1'')"
    by (simp add: getMeetingID_def provisioning_env_def offline_env_def)
  have ch: "fst (createChimeMeeting (chimeReply provisioning_env) (JStr ''m-1'') (JStr ''bob'')
      (JStr ''guest'')) = Inr (JStr ''chime-1'', ?fm)"
    by (simp add: createChimeMeeting_def provisioning_env_def offline_env_def)
  obtain s1 where s1: "handleAppAcceptCall_sync accept_event bob_ringing = Some s1"
    using scenario_accepts(2) by blast
  have d: "field (event_detail accept_event) ''callerId'' = JStr ''alice''"
    "field (event_detail accept_event) ''calleeId'' = JStr ''bob''"
    "field (event_detail accept_event) ''role'' = JStr ''guest''"
    by (simp_all add: accept_event_def event_detail_def)
  have i1: "callType (invite s1) = JStr ''video''"
    by (subst handleAppAcceptCall_sync_Some(1) [OF s1]) (simp add: bob_ringing_eq)
  have h: "handleAppAcceptCall provisioning_env accept_event bob_ringing =
      calleeMeetingFlow provisioning_env False (JStr ''alice'') (JStr ''bob'') (JStr ''guest'') s1"
    by (simp add: handleAppAcceptCall_def s1 d)
  have pend: "pendingCalleeJoin (handleAppAcceptCall provisioning_env accept_event bob_ringing) = Some ?p"
    using manual_flow_stores_pending [OF m db ch, of False "JStr ''alice''" s1]
    by (simp add: h i1)
  from pending_join_consumed_once [OF m db ch pend, of False "JStr ''alice''" s1 flat_join_env offline_env]
  show ?thesis
    using m db ch pend by simp
qed

end
